theory Spec2Isabelle
  imports Main
begin

section \<open>The change-set engine of c3nav's editor (src/c3nav/editor/models.py)\<close>

text \<open>
  The Python classes \<open>ChangeSet\<close> and \<open>Change\<close> are Django models. An instance is a
  record of its attributes; a method that mutates \<open>self\<close> returns the updated record;
  a raised exception is a value of type \<open>error\<close>, returned next to the state the
  exception leaves behind.
\<close>

subsection \<open>Exceptions\<close>

datatype error =
    ValidationError string
  | TypeError string
  | ValueError string
  | LookupError
  | AttributeError
  | ObjectDoesNotExist
  | NotImplementedError
  | IntegrityError

subsection \<open>Values\<close>

text \<open>A model class, as far as the code looks at it: \<open>__name__\<close>,
  \<open>issubclass(value, models.Model)\<close>, \<open>_meta.abstract\<close> and \<open>_meta.app_label\<close>.\<close>

record model_cls =
  cls_name :: string
  cls_is_model :: bool
  cls_abstract :: bool
  cls_app_label :: string

text \<open>A primary key as the wrappers carry it: an \<open>int\<close> for a persisted object, a
  \<open>str\<close> for an object that a pending create Change stands for.\<close>

datatype pkv = IntPk int | StrPk string

text \<open>\<open>request.user\<close>: \<open>is_authenticated()\<close> holds of a \<open>User\<close> with its identity and
  not of \<open>AnonymousUser\<close>.\<close>

datatype user = AnonymousUser | User int

text \<open>A model instance of the canonical store: its \<open>pk\<close> and its class.\<close>

record model_instance =
  inst_pk :: "pkv option"
  inst_class :: model_cls

text \<open>Modelled from the spec: the wrapper classes of \<open>c3nav.editor.wrappers\<close> are not part
  of the sources at hand. A \<open>ModelInstanceWrapper\<close> is the facade over one entity; the
  record holds the three attributes that models.py reads from it: \<open>value.pk\<close>,
  \<open>value._changeset.id\<close> and \<open>type(value._obj)\<close>.\<close>

record wrapper =
  w_pk :: "pkv option"
  w_changeset_id :: "int option"
  w_obj_class :: model_cls

text \<open>What the code reads from the Change that a foreign key (\<open>deletes_change\<close>,
  \<open>created_object\<close>) points to: its \<open>pk\<close>, its \<open>changeset_id\<close> and its \<open>model_name\<close>.
  A persisted Change is never edited, so these do not change under the reference.\<close>

record change_ref =
  ref_pk :: "int option"
  ref_changeset_id :: "int option"
  ref_model_name :: "string option"

text \<open>\<open>class Change\<close>: the fields of the model, and \<open>_set_object\<close> of \<open>__init__\<close>.
  Timestamps are natural numbers.\<close>

record change =
  pk :: "int option"
  changeset_id :: "int option"
  author_id :: "int option"
  created :: "nat option"
  action :: string
  deletes_change :: "change_ref option"
  model_name :: "string option"
  existing_object_pk :: "int option"
  created_object :: "change_ref option"
  field_name :: "string option"
  field_value :: "string option"
  set_object :: "wrapper option"

text \<open>\<open>class ChangeSet\<close>. A row of the table has an identity and a creation time
  (\<open>auto_now_add\<close>); the Python object has every attribute optional, and the four
  attributes that \<open>__init__\<close> adds (the fields are prefixed, the names of \<open>Change\<close>
  being taken).\<close>

record changeset_row =
  row_pk :: int
  row_created :: nat
  row_author_id :: "int option"
  row_proposed :: "nat option"
  row_applied :: "nat option"
  row_applied_by_id :: "int option"

record 'j changeset =
  cs_pk :: "int option"
  cs_created :: "nat option"
  cs_author_id :: "int option"
  cs_proposed :: "nat option"
  cs_applied :: "nat option"
  cs_applied_by_id :: "int option"
  default_author :: "user option"
  parsed :: bool
  updated_values :: "model_cls option \<rightharpoonup> (pkv option \<rightharpoonup> (string option \<rightharpoonup> 'j))"
  deleted_existing :: "model_cls option \<rightharpoonup> int set"

text \<open>The store: the two tables of this module with their sequences, the records of the
  canonical store (class and identity), and the time of the call.\<close>

record db =
  change_rows :: "change list"
  next_change_pk :: int
  changeset_rows :: "changeset_row list"
  next_changeset_pk :: int
  stored :: "(model_cls \<times> int) set"
  now :: nat

text \<open>The request: \<open>request.user\<close> and \<open>request.session['changeset_pk']\<close>.\<close>

record request =
  req_user :: user
  session_changeset_pk :: "int option"

text \<open>The library functions the code calls, taken as parameters: \<open>apps.get_model('mapdata', name)\<close>
  (\<open>None\<close> when it raises LookupError), \<open>json.loads\<close> and \<open>json.dumps\<close> over the decoded
  values \<open>'j\<close>, and Python's \<open>int(s)\<close> on a string (\<open>None\<close> when it raises ValueError).\<close>

record 'j env =
  get_model :: "string \<Rightarrow> model_cls option"
  json_loads :: "string option \<Rightarrow> error + 'j"
  json_dumps :: "'j \<Rightarrow> string"
  py_int :: "string \<Rightarrow> int option"

subsection \<open>Python's \<open>str\<close> on an integer\<close>

text \<open>The decimal digit \<open>d\<close>, for \<open>d\<close> below ten (the only arguments it gets).\<close>

definition digit_char :: "nat \<Rightarrow> char" where
  "digit_char d = ''0123456789'' ! d"

function str_nat :: "nat \<Rightarrow> string" where
  "str_nat n = (if n < 10 then [digit_char n] else str_nat (n div 10) @ [digit_char (n mod 10)])"
  by pat_completeness auto
termination
  by (relation "measure id") auto

declare str_nat.simps [simp del]

definition str_int :: "int \<Rightarrow> string" where
  "str_int i = (if i < 0 then CHR ''-'' # str_nat (nat (- i)) else str_nat (nat i))"

text \<open>\<open>str(x)\<close> where \<open>x\<close> is an integer or \<open>None\<close>.\<close>

definition py_str :: "int option \<Rightarrow> string" where
  "py_str x = (case x of None \<Rightarrow> ''None'' | Some i \<Rightarrow> str_int i)"

subsection \<open>\<open>Change.model_class\<close> and \<open>Change.obj_pk\<close>\<close>

text \<open>The getter \<open>model_class\<close>, for the Change itself and for the Change that
  \<open>created_object\<close> points to.\<close>

definition model_class_of_name :: "'j env \<Rightarrow> string option \<Rightarrow> error + model_cls option" where
  "model_class_of_name E name =
     (case name of
        None \<Rightarrow> Inr None
      | Some n \<Rightarrow> (case get_model E n of None \<Rightarrow> Inl LookupError | Some m \<Rightarrow> Inr (Some m)))"

definition model_class :: "'j env \<Rightarrow> change \<Rightarrow> error + model_cls option" where
  "model_class E self = model_class_of_name E (model_name self)"

text \<open>The setter \<open>model_class\<close>.\<close>

definition set_model_class :: "model_cls option \<Rightarrow> change \<Rightarrow> (error + unit) \<times> change" where
  "set_model_class val self =
     (case val of
        None \<Rightarrow> (Inr (), self\<lparr>model_name := None\<rparr>)
      | Some v \<Rightarrow>
          if \<not> cls_is_model v then (Inl (ValueError ''value is not a django model''), self)
          else if cls_abstract v then (Inl (ValueError ''value is an abstract model''), self)
          else if cls_app_label v \<noteq> ''mapdata'' then (Inl (ValueError ''value is not a mapdata model''), self)
          else (Inr (), self\<lparr>model_name := Some (cls_name v)\<rparr>))"

definition obj_pk :: "change \<Rightarrow> error + pkv option" where
  "obj_pk self =
     (case set_object self of
        Some w \<Rightarrow> Inr (w_pk w)
      | None \<Rightarrow>
          (case existing_object_pk self of
             Some n \<Rightarrow> Inr (Some (IntPk n))
           | None \<Rightarrow>
               (case created_object self of
                  Some c \<Rightarrow> Inr (Some (StrPk (CHR ''c'' # py_str (ref_changeset_id c))))
                | None \<Rightarrow> Inl (TypeError ''existing_model_pk or created_object have to be set.''))))"

subsection \<open>The overlay projection: \<open>ChangeSet._parse_change\<close> and \<open>ChangeSet.parse_changes\<close>\<close>

text \<open>\<open>d.setdefault(k, v)\<close> returns the value under \<open>k\<close>, which is \<open>v\<close> when the key
  is new; the caller below writes the entry back, as the shared reference does.\<close>

definition setdefault :: "('k \<rightharpoonup> 'v) \<Rightarrow> 'k \<Rightarrow> 'v \<Rightarrow> 'v" where
  "setdefault d k v = (case d k of None \<Rightarrow> v | Some x \<Rightarrow> x)"

text \<open>\<open>_parse_change\<close>. The chained call evaluates left to right: the class, the first
  \<open>setdefault\<close>, \<open>obj_pk\<close>, the second \<open>setdefault\<close>, \<open>json.loads\<close>, then \<open>update\<close>;
  an exception on the way leaves the entries made so far.\<close>

definition parse_change :: "'j env \<Rightarrow> change \<Rightarrow> 'j changeset \<Rightarrow> (error + unit) \<times> 'j changeset" where
  "parse_change E change self =
     (if action change = ''update'' then
        (case model_class E change of
           Inl e \<Rightarrow> (Inl e, self)
         | Inr mc \<Rightarrow>
             let by_pk = setdefault (updated_values self) mc Map.empty;
                 self1 = self\<lparr>updated_values := (updated_values self)(mc \<mapsto> by_pk)\<rparr>
             in (case obj_pk change of
                   Inl e \<Rightarrow> (Inl e, self1)
                 | Inr opk \<Rightarrow>
                     let by_field = setdefault by_pk opk Map.empty;
                         self2 = self\<lparr>updated_values :=
                                   (updated_values self)(mc \<mapsto> by_pk(opk \<mapsto> by_field))\<rparr>
                     in (case json_loads E (field_value change) of
                           Inl e \<Rightarrow> (Inl e, self2)
                         | Inr v \<Rightarrow>
                             (Inr (), self\<lparr>updated_values :=
                                (updated_values self)
                                  (mc \<mapsto> by_pk(opk \<mapsto> by_field(field_name change \<mapsto> v)))\<rparr>))))
      else if action change = ''delete'' then
        (case existing_object_pk change of
           None \<Rightarrow> (Inr (), self)
         | Some n \<Rightarrow>
             (case model_class E change of
                Inl e \<Rightarrow> (Inl e, self)
              | Inr mc \<Rightarrow>
                  (Inr (), self\<lparr>deleted_existing :=
                     (deleted_existing self)
                       (mc \<mapsto> insert n (setdefault (deleted_existing self) mc {}))\<rparr>)))
      else (Inr (), self))"

text \<open>The \<open>for\<close> loop of \<open>parse_changes\<close> over the Changes that \<open>self.changes.all()\<close>
  yields; an exception ends it.\<close>

fun parse_loop :: "'j env \<Rightarrow> change list \<Rightarrow> 'j changeset \<Rightarrow> (error + unit) \<times> 'j changeset" where
  "parse_loop E [] self = (Inr (), self)"
| "parse_loop E (change # rest) self =
     (case parse_change E change self of
        (Inl e, self') \<Rightarrow> (Inl e, self')
      | (Inr _, self') \<Rightarrow> parse_loop E rest self')"

text \<open>\<open>parse_changes\<close>; \<open>log\<close> is what \<open>self.changes.all()\<close> yields, in the order of
  \<open>Meta.ordering\<close>. Nothing in the file sets \<open>parsed\<close>, so the flag stays as it is.\<close>

definition parse_changes :: "'j env \<Rightarrow> change list \<Rightarrow> 'j changeset \<Rightarrow> (error + unit) \<times> 'j changeset" where
  "parse_changes E log self =
     (if parsed self then (Inr (), self) else parse_loop E log self)"

subsection \<open>\<open>ChangeSet.wrap\<close>\<close>

text \<open>\<open>wrap\<close> of a model instance, the case that \<open>Change\<close> uses (a string or a class
  gives a \<open>ModelWrapper\<close> instead): it parses the log, then builds the wrapper. The
  author handed to the wrapper is not read by this module and is left out of the record.

  Modelled from the spec: the constructor of \<open>ModelInstanceWrapper\<close> is not part of the
  sources at hand. The wrapper reports the identity and the class of the entity it is a
  facade over, and the change set it was made by.\<close>

definition wrap :: "'j env \<Rightarrow> change list \<Rightarrow> 'j changeset \<Rightarrow> model_instance
    \<Rightarrow> (error + wrapper) \<times> 'j changeset" where
  "wrap E log self obj =
     (case parse_changes E log self of
        (Inl e, self') \<Rightarrow> (Inl e, self')
      | (Inr _, self') \<Rightarrow>
          (Inr \<lparr>w_pk = inst_pk obj, w_changeset_id = cs_pk self', w_obj_class = inst_class obj\<rparr>, self'))"

subsection \<open>\<open>Change.obj\<close>: getter and setter\<close>

text \<open>The getter. \<open>cs\<close> is the handle that \<open>self.changeset\<close> refers to; the getter caches
  the wrapper in \<open>_set_object\<close>, and \<open>wrap\<close> parses the handle, so both come back.\<close>

definition obj :: "'j env \<Rightarrow> db \<Rightarrow> change list \<Rightarrow> 'j changeset \<Rightarrow> change
    \<Rightarrow> (error + wrapper) \<times> change \<times> 'j changeset" where
  "obj E D log cs self =
     (case set_object self of
        Some w \<Rightarrow> (Inr w, self, cs)
      | None \<Rightarrow>
          (case existing_object_pk self of
             Some n \<Rightarrow>
               (if created_object self \<noteq> None
                then (Inl (TypeError ''existing_object_pk and created_object can not both be set.''), self, cs)
                else
                  (case model_class E self of
                     Inl e \<Rightarrow> (Inl e, self, cs)
                   | Inr None \<Rightarrow> (Inl AttributeError, self, cs)
                   | Inr (Some m) \<Rightarrow>
                       (if (m, n) \<in> stored D
                        then
                          (case wrap E log cs \<lparr>inst_pk = Some (IntPk n), inst_class = m\<rparr> of
                             (Inl e, cs') \<Rightarrow> (Inl e, self, cs')
                           | (Inr w, cs') \<Rightarrow> (Inr w, self\<lparr>set_object := Some w\<rparr>, cs'))
                        else (Inl ObjectDoesNotExist, self, cs))))
           | None \<Rightarrow>
               (case created_object self of
                  Some c \<Rightarrow>
                    (case model_class_of_name E (ref_model_name c) of
                       Inl e \<Rightarrow> (Inl e, self, cs)
                     | Inr cm \<Rightarrow>
                         (case model_class E self of
                            Inl e \<Rightarrow> (Inl e, self, cs)
                          | Inr sm \<Rightarrow>
                              if cm \<noteq> sm
                              then (Inl (TypeError ''created_object model and change model do not match.''), self, cs)
                              else if ref_changeset_id c \<noteq> changeset_id self
                              then (Inl (TypeError ''created_object belongs to a different changeset.''), self, cs)
                              else (Inl NotImplementedError, self, cs)))
                | None \<Rightarrow>
                    (Inl (TypeError ''existing_model_pk or created_object have to be set.''), self, cs))))"

text \<open>What is assigned to \<open>obj\<close>: a model instance or a wrapper.\<close>

datatype target = Instance model_instance | Wrapped wrapper

definition ref_of :: "change \<Rightarrow> change_ref" where
  "ref_of r = \<lparr>ref_pk = pk r, ref_changeset_id = changeset_id r, ref_model_name = model_name r\<rparr>"

text \<open>\<open>Change.objects.get(pk=s)\<close>: the string is converted as \<open>int(s)\<close> does, then the
  row is looked up.\<close>

definition change_objects_get :: "'j env \<Rightarrow> db \<Rightarrow> string \<Rightarrow> error + change" where
  "change_objects_get E D s =
     (case py_int E s of
        None \<Rightarrow> Inl (ValueError ''invalid literal for int()'')
      | Some n \<Rightarrow>
          (case find (\<lambda>r. pk r = Some n) (change_rows D) of
             None \<Rightarrow> Inl ObjectDoesNotExist
           | Some r \<Rightarrow> Inr r))"

text \<open>The setter. \<open>value.pk[1:]\<close> is \<open>tl\<close> of the string. \<open>created_object_id\<close> is the
  identity of the Change just fetched and has no field of its own here.\<close>

definition set_obj :: "'j env \<Rightarrow> db \<Rightarrow> change list \<Rightarrow> 'j changeset \<Rightarrow> target \<Rightarrow> change
    \<Rightarrow> (error + unit) \<times> change \<times> 'j changeset" where
  "set_obj E D log cs val self =
     (case (case val of Wrapped w \<Rightarrow> (Inr w, cs) | Instance i \<Rightarrow> wrap E log cs i) of
        (Inl e, cs') \<Rightarrow> (Inl e, self, cs')
      | (Inr w, cs') \<Rightarrow>
          (case w_pk w of
             Some (StrPk s) \<Rightarrow>
               (if w_changeset_id w \<noteq> cs_pk cs'
                then (Inl (ValueError ''value is a Change instance but belongs to a different changeset.''), self, cs')
                else
                  (case set_model_class (Some (w_obj_class w)) self of
                     (Inl e, self1) \<Rightarrow> (Inl e, self1, cs')
                   | (Inr _, self1) \<Rightarrow>
                       (case change_objects_get E D (tl s) of
                          Inl e \<Rightarrow> (Inl e, self1, cs')
                        | Inr r \<Rightarrow>
                            (Inr (), self1\<lparr>created_object := Some (ref_of r),
                                           existing_object_pk := None,
                                           set_object := Some w\<rparr>, cs'))))
           | other \<Rightarrow>
               (case model_class E self of
                  Inl e \<Rightarrow> (Inl e, self, cs')
                | Inr model_class_before \<Rightarrow>
                    (case set_model_class (Some (w_obj_class w)) self of
                       (Inl e, self1) \<Rightarrow> (Inl e, self1, cs')
                     | (Inr _, self1) \<Rightarrow>
                         (case other of
                            Some (IntPk n) \<Rightarrow>
                              (Inr (), self1\<lparr>existing_object_pk := Some n,
                                             created_object := None,
                                             set_object := Some w\<rparr>, cs')
                          | _ \<Rightarrow>
                              (case set_model_class model_class_before self1 of
                                 (Inl e, self2) \<Rightarrow> (Inl e, self2, cs')
                               | (Inr _, self2) \<Rightarrow>
                                   (Inl (ValueError ''object is not saved yet and cannot be referenced''),
                                    self2, cs')))))))"

subsection \<open>\<open>Change.clean\<close>\<close>

text \<open>The fields that the loop of the \<open>delchange\<close> branch reads, in its order, each with
  whether it is set.\<close>

definition delchange_fields :: "change \<Rightarrow> (string \<times> bool) list" where
  "delchange_fields self =
     [(''model_name'', model_name self \<noteq> None),
      (''existing_object_pk'', existing_object_pk self \<noteq> None),
      (''created_object'', created_object self \<noteq> None),
      (''field_name'', field_name self \<noteq> None),
      (''field_value'', field_value self \<noteq> None)]"

definition create_delete_fields :: "change \<Rightarrow> (string \<times> bool) list" where
  "create_delete_fields self =
     [(''field_name'', field_name self \<noteq> None),
      (''field_value'', field_value self \<noteq> None)]"

text \<open>The body of the \<open>try\<close>: \<open>tmp = self.model_class if self.action == 'create' else self.obj\<close>.\<close>

definition resolve_target :: "'j env \<Rightarrow> db \<Rightarrow> change list \<Rightarrow> 'j changeset \<Rightarrow> change
    \<Rightarrow> (error + unit) \<times> change \<times> 'j changeset" where
  "resolve_target E D log cs self =
     (if action self = ''create''
      then (case model_class E self of Inl e \<Rightarrow> (Inl e, self, cs) | Inr _ \<Rightarrow> (Inr (), self, cs))
      else (case obj E D log cs self of
              (Inl e, self', cs') \<Rightarrow> (Inl e, self', cs')
            | (Inr _, self', cs') \<Rightarrow> (Inr (), self', cs')))"

definition clean :: "'j env \<Rightarrow> db \<Rightarrow> change list \<Rightarrow> 'j changeset \<Rightarrow> change
    \<Rightarrow> (error + unit) \<times> change \<times> 'j changeset" where
  "clean E D log cs self =
     (if action self = ''delchange'' then
        (case deletes_change self of
           None \<Rightarrow> (Inl (ValidationError ''deletes_change has to be set if action is delchange.''), self, cs)
         | Some d \<Rightarrow>
             if ref_changeset_id d \<noteq> changeset_id self
             then (Inl (ValidationError ''deletes_change refers to a change from a different changeset.''), self, cs)
             else
               (case find snd (delchange_fields self) of
                  Some (name, _) \<Rightarrow>
                    (Inl (ValidationError (name @ '' must not be set if action is delchange.'')), self, cs)
                | None \<Rightarrow> (Inr (), self, cs)))
      else if deletes_change self \<noteq> None
      then (Inl (ValidationError ''deletes_change can only be set if action is delchange.''), self, cs)
      else if model_name self = None
      then (Inl (ValidationError ''model_name has to be set if action is not delchange.''), self, cs)
      else
        (case resolve_target E D log cs self of
           (Inl (TypeError msg), self', cs') \<Rightarrow> (Inl (ValidationError msg), self', cs')
         | (Inl ObjectDoesNotExist, self', cs') \<Rightarrow>
             (Inl (ValidationError ''existing object does not exist.''), self', cs')
         | (Inl e, self', cs') \<Rightarrow> (Inl e, self', cs')
         | (Inr _, self', cs') \<Rightarrow>
             if action self' = ''create'' \<or> action self' = ''delete'' then
               (case find snd (create_delete_fields self') of
                  Some (name, _) \<Rightarrow>
                    (Inl (ValidationError (name @ '' must not be set if action is create or delete.'')), self', cs')
                | None \<Rightarrow> (Inr (), self', cs'))
             else (Inr (), self', cs')))"

subsection \<open>\<open>Change.save\<close>\<close>

text \<open>\<open>super().save()\<close> for a Change without identity: the insert. The table refuses a
  row without \<open>changeset\<close> (the column is not nullable) and a second row with the same
  \<open>deletes_change\<close> (a one-to-one field); the row gets the next identity and the time of
  the call. A row read back has no \<open>_set_object\<close>, so none is stored.\<close>

definition insert_change :: "db \<Rightarrow> change \<Rightarrow> (error + unit) \<times> change \<times> db" where
  "insert_change D self =
     (if changeset_id self = None then (Inl IntegrityError, self, D)
      else if deletes_change self \<noteq> None \<and>
              list_ex (\<lambda>r. map_option ref_pk (deletes_change r) = map_option ref_pk (deletes_change self))
                (change_rows D)
      then (Inl IntegrityError, self, D)
      else
        let self' = self\<lparr>pk := Some (next_change_pk D), created := Some (now D)\<rparr>
        in (Inr (), self',
            D\<lparr>change_rows := change_rows D @ [self'\<lparr>set_object := None\<rparr>],
              next_change_pk := next_change_pk D + 1\<rparr>))"

definition save :: "'j env \<Rightarrow> db \<Rightarrow> change list \<Rightarrow> 'j changeset \<Rightarrow> change
    \<Rightarrow> (error + unit) \<times> change \<times> 'j changeset \<times> db" where
  "save E D log cs self =
     (case clean E D log cs self of
        (Inl e, self', cs') \<Rightarrow> (Inl e, self', cs', D)
      | (Inr _, self', cs') \<Rightarrow>
          if pk self' \<noteq> None
          then (Inl (TypeError ''change objects can not be edited.''), self', cs', D)
          else if cs_proposed cs' \<noteq> None \<or> cs_applied cs' \<noteq> None
          then (Inl (TypeError ''can not add change object to uneditable changeset.''), self', cs', D)
          else (case insert_change D self' of (r, self'', D') \<Rightarrow> (r, self'', cs', D')))"

subsection \<open>\<open>ChangeSet._new_change\<close> and the \<open>add_\<close> methods\<close>

text \<open>The keyword arguments that the \<open>add_\<close> methods hand to \<open>_new_change\<close>, which sets
  them with \<open>setattr\<close> in their order.\<close>

datatype kwarg =
    Kw_action string
  | Kw_model_class "model_cls option"
  | Kw_obj target
  | Kw_field_name "string option"
  | Kw_field_value "string option"

fun set_attrs :: "'j env \<Rightarrow> db \<Rightarrow> change list \<Rightarrow> 'j changeset \<Rightarrow> kwarg list \<Rightarrow> change
    \<Rightarrow> (error + unit) \<times> change \<times> 'j changeset" where
  "set_attrs E D log cs [] change = (Inr (), change, cs)"
| "set_attrs E D log cs (Kw_action a # kws) change = set_attrs E D log cs kws (change\<lparr>action := a\<rparr>)"
| "set_attrs E D log cs (Kw_model_class m # kws) change =
     (case set_model_class m change of
        (Inl e, change') \<Rightarrow> (Inl e, change', cs)
      | (Inr _, change') \<Rightarrow> set_attrs E D log cs kws change')"
| "set_attrs E D log cs (Kw_obj v # kws) change =
     (case set_obj E D log cs v change of
        (Inl e, change', cs') \<Rightarrow> (Inl e, change', cs')
      | (Inr _, change', cs') \<Rightarrow> set_attrs E D log cs' kws change')"
| "set_attrs E D log cs (Kw_field_name n # kws) change =
     set_attrs E D log cs kws (change\<lparr>field_name := n\<rparr>)"
| "set_attrs E D log cs (Kw_field_value v # kws) change =
     set_attrs E D log cs kws (change\<lparr>field_value := v\<rparr>)"

text \<open>\<open>Change(changeset=self)\<close>: a Change with no field set but its change set.\<close>

definition new_instance :: "'j changeset \<Rightarrow> change" where
  "new_instance cs =
     \<lparr>pk = None, changeset_id = cs_pk cs, author_id = None, created = None, action = [],
      deletes_change = None, model_name = None, existing_object_pk = None,
      created_object = None, field_name = None, field_value = None, set_object = None\<rparr>"

definition new_change :: "'j env \<Rightarrow> db \<Rightarrow> change list \<Rightarrow> 'j changeset \<Rightarrow> user option \<Rightarrow> kwarg list
    \<Rightarrow> (error + change) \<times> 'j changeset \<times> db" where
  "new_change E D log self author kwargs =
     (case parse_changes E log self of
        (Inl e, self1) \<Rightarrow> (Inl e, self1, D)
      | (Inr _, self1) \<Rightarrow>
          let change0 = (new_instance self1)\<lparr>changeset_id := cs_pk self1\<rparr>;
              author' = (case author of None \<Rightarrow> default_author self1 | Some a \<Rightarrow> Some a);
              change1 = (case author' of
                           Some (User u) \<Rightarrow> change0\<lparr>author_id := Some u\<rparr>
                         | _ \<Rightarrow> change0)
          in (case set_attrs E D log self1 kwargs change1 of
                (Inl e, change2, self2) \<Rightarrow> (Inl e, self2, D)
              | (Inr _, change2, self2) \<Rightarrow>
                  (case save E D log self2 change2 of
                     (Inl e, change3, self3, D') \<Rightarrow> (Inl e, self3, D')
                   | (Inr _, change3, self3, D') \<Rightarrow>
                       (case parse_change E change3 self3 of
                          (Inl e, self4) \<Rightarrow> (Inl e, self4, D')
                        | (Inr _, self4) \<Rightarrow> (Inr change3, self4, D')))))"

text \<open>\<open>add_create\<close> returns nothing and sets \<open>obj.pk\<close>; the wrapper comes back
  (the argument \<open>obj\<close> is written \<open>wobj\<close> here and \<open>tgt\<close> below, \<open>obj\<close> being the getter).\<close>

definition add_create :: "'j env \<Rightarrow> db \<Rightarrow> change list \<Rightarrow> 'j changeset \<Rightarrow> wrapper \<Rightarrow> user option
    \<Rightarrow> (error + unit) \<times> wrapper \<times> 'j changeset \<times> db" where
  "add_create E D log self wobj author =
     (case new_change E D log self author [Kw_action ''create'', Kw_model_class (Some (w_obj_class wobj))] of
        (Inl e, self', D') \<Rightarrow> (Inl e, wobj, self', D')
      | (Inr change, self', D') \<Rightarrow>
          (case pk change of
             None \<Rightarrow> (Inl (TypeError ''%d format: a number is required, not NoneType''), wobj, self', D')
           | Some n \<Rightarrow> (Inr (), wobj\<lparr>w_pk := Some (StrPk (CHR ''c'' # str_int n))\<rparr>, self', D')))"

definition add_value :: "'j env \<Rightarrow> db \<Rightarrow> change list \<Rightarrow> 'j changeset \<Rightarrow> string \<Rightarrow> target \<Rightarrow> string
    \<Rightarrow> 'j \<Rightarrow> user option \<Rightarrow> (error + change) \<times> 'j changeset \<times> db" where
  "add_value E D log self act tgt name val author =
     new_change E D log self author
       [Kw_action act, Kw_obj tgt, Kw_field_name (Some name), Kw_field_value (Some (json_dumps E val))]"

definition add_update :: "'j env \<Rightarrow> db \<Rightarrow> change list \<Rightarrow> 'j changeset \<Rightarrow> target \<Rightarrow> string
    \<Rightarrow> 'j \<Rightarrow> user option \<Rightarrow> (error + change) \<times> 'j changeset \<times> db" where
  "add_update E D log self tgt name val author = add_value E D log self ''update'' tgt name val author"

definition add_m2m_add :: "'j env \<Rightarrow> db \<Rightarrow> change list \<Rightarrow> 'j changeset \<Rightarrow> target \<Rightarrow> string
    \<Rightarrow> 'j \<Rightarrow> user option \<Rightarrow> (error + change) \<times> 'j changeset \<times> db" where
  "add_m2m_add E D log self tgt name val author = add_value E D log self ''m2m_add'' tgt name val author"

definition add_m2m_remove :: "'j env \<Rightarrow> db \<Rightarrow> change list \<Rightarrow> 'j changeset \<Rightarrow> target \<Rightarrow> string
    \<Rightarrow> 'j \<Rightarrow> user option \<Rightarrow> (error + change) \<times> 'j changeset \<times> db" where
  "add_m2m_remove E D log self tgt name val author =
     add_value E D log self ''m2m_remove'' tgt name val author"

definition add_delete :: "'j env \<Rightarrow> db \<Rightarrow> change list \<Rightarrow> 'j changeset \<Rightarrow> target \<Rightarrow> user option
    \<Rightarrow> (error + change) \<times> 'j changeset \<times> db" where
  "add_delete E D log self tgt author =
     new_change E D log self author [Kw_action ''delete'', Kw_obj tgt]"

subsection \<open>\<open>ChangeSet.get_for_request\<close>\<close>

text \<open>A query set is the list of its rows. \<open>__init__\<close> builds the handle of a row.\<close>

definition of_row :: "changeset_row \<Rightarrow> 'j changeset" where
  "of_row r =
     \<lparr>cs_pk = Some (row_pk r), cs_created = Some (row_created r), cs_author_id = row_author_id r,
      cs_proposed = row_proposed r, cs_applied = row_applied r, cs_applied_by_id = row_applied_by_id r,
      default_author = None, parsed = False, updated_values = Map.empty,
      deleted_existing = Map.empty\<rparr>"

text \<open>\<open>cls()\<close>: a handle of no row.\<close>

definition new_changeset :: "'j changeset" where
  "new_changeset =
     \<lparr>cs_pk = None, cs_created = None, cs_author_id = None, cs_proposed = None, cs_applied = None,
      cs_applied_by_id = None, default_author = None, parsed = False, updated_values = Map.empty,
      deleted_existing = Map.empty\<rparr>"

definition qs_base :: "db \<Rightarrow> bool \<Rightarrow> changeset_row list" where
  "qs_base D hide_applied =
     (let qs = changeset_rows D
      in if hide_applied then filter (\<lambda>r. row_applied r = None) qs else qs)"

definition qs_for_request :: "db \<Rightarrow> request \<Rightarrow> changeset_row list" where
  "qs_for_request D req =
     (let qs = qs_base D True
      in case req_user req of
           User u \<Rightarrow> filter (\<lambda>r. row_author_id r = None \<or> row_author_id r = Some u) qs
         | AnonymousUser \<Rightarrow> filter (\<lambda>r. row_author_id r = None) qs)"

text \<open>\<open>order_by('-created').first()\<close>: a row of the greatest creation time; among equal
  times the store picks, and the model takes the first in table order.\<close>

fun latest :: "changeset_row list \<Rightarrow> changeset_row option" where
  "latest [] = None"
| "latest (r # rs) =
     (case latest rs of
        None \<Rightarrow> Some r
      | Some b \<Rightarrow> if row_created r < row_created b then Some b else Some r)"

text \<open>\<open>changeset.save()\<close> of a handle that has a row: the row takes the handle's fields.\<close>

definition update_changeset :: "db \<Rightarrow> 'j changeset \<Rightarrow> db" where
  "update_changeset D cs =
     D\<lparr>changeset_rows :=
        map (\<lambda>r. if Some (row_pk r) = cs_pk cs
                 then r\<lparr>row_author_id := cs_author_id cs, row_proposed := cs_proposed cs,
                        row_applied := cs_applied cs, row_applied_by_id := cs_applied_by_id cs\<rparr>
                 else r)
          (changeset_rows D)\<rparr>"

text \<open>\<open>new_changeset.save()\<close>: the insert gives the identity and the creation time.\<close>

definition insert_changeset :: "db \<Rightarrow> 'j changeset \<Rightarrow> 'j changeset \<times> db" where
  "insert_changeset D cs =
     (let cs' = cs\<lparr>cs_pk := Some (next_changeset_pk D), cs_created := Some (now D)\<rparr>
      in (cs',
          D\<lparr>changeset_rows := changeset_rows D @
               [\<lparr>row_pk = next_changeset_pk D, row_created = now D, row_author_id = cs_author_id cs,
                 row_proposed = cs_proposed cs, row_applied = cs_applied cs,
                 row_applied_by_id = cs_applied_by_id cs\<rparr>],
            next_changeset_pk := next_changeset_pk D + 1\<rparr>))"

text \<open>The part of \<open>get_for_request\<close> from \<open>new_changeset = cls()\<close> on.\<close>

definition resume_or_create :: "db \<Rightarrow> request \<Rightarrow> changeset_row list
    \<Rightarrow> 'j changeset \<times> db \<times> request" where
  "resume_or_create D req qs =
     (let fresh = new_changeset
      in case (case req_user req of
                 User u \<Rightarrow> latest (filter (\<lambda>r. row_author_id r = Some u) qs)
               | AnonymousUser \<Rightarrow> None) of
           Some r \<Rightarrow>
             ((of_row r)\<lparr>default_author := Some (req_user req)\<rparr>, D,
              req\<lparr>session_changeset_pk := Some (row_pk r)\<rparr>)
         | None \<Rightarrow>
             let fresh1 = (case req_user req of
                             User u \<Rightarrow> fresh\<lparr>cs_author_id := Some u\<rparr>
                           | AnonymousUser \<Rightarrow> fresh)
             in (case insert_changeset D fresh1 of
                   (fresh2, D') \<Rightarrow>
                     (fresh2\<lparr>default_author := Some (req_user req)\<rparr>, D',
                      req\<lparr>session_changeset_pk := cs_pk fresh2\<rparr>)))"

text \<open>The ChangeSet that the session names: \<open>qs.filter(pk=changeset_pk).first()\<close>, or
  \<open>None\<close> when the session names none.\<close>

definition session_changeset :: "db \<Rightarrow> request \<Rightarrow> changeset_row option" where
  "session_changeset D req =
     (case session_changeset_pk req of
        None \<Rightarrow> None
      | Some changeset_pk \<Rightarrow> find (\<lambda>r. row_pk r = changeset_pk) (qs_for_request D req))"

definition get_for_request :: "db \<Rightarrow> request \<Rightarrow> 'j changeset \<times> db \<times> request" where
  "get_for_request D req =
     (case session_changeset D req of
        Some r \<Rightarrow>
          (let changeset = (of_row r)\<lparr>default_author := Some (req_user req)\<rparr>
           in case req_user req of
                User u \<Rightarrow>
                  if cs_author_id changeset = None
                  then (let changeset' = changeset\<lparr>cs_author_id := Some u\<rparr>
                        in (changeset', update_changeset D changeset', req))
                  else (changeset, D, req)
              | AnonymousUser \<Rightarrow> (changeset, D, req))
      | None \<Rightarrow> resume_or_create D req (qs_for_request D req))"

section \<open>Auxiliary definitions for the properties\<close>

subsection \<open>Reading the projection\<close>

text \<open>The entry \<open>updated_values[model][identity][field]\<close>, or \<open>None\<close> when a key on the
  way is missing.\<close>

definition lookup_value :: "'j changeset \<Rightarrow> model_cls option \<Rightarrow> pkv option \<Rightarrow> string option \<Rightarrow> 'j option" where
  "lookup_value cs mc opk fn =
     (case updated_values cs mc of
        None \<Rightarrow> None
      | Some by_pk \<Rightarrow> (case by_pk opk of None \<Rightarrow> None | Some by_field \<Rightarrow> by_field fn))"

subsection \<open>The two writes of \<open>_parse_change\<close>, as functions on the dictionaries\<close>

definition upd3 :: "('a \<rightharpoonup> ('b \<rightharpoonup> ('c \<rightharpoonup> 'd))) \<Rightarrow> 'a \<Rightarrow> 'b \<Rightarrow> 'c \<Rightarrow> 'd
    \<Rightarrow> ('a \<rightharpoonup> ('b \<rightharpoonup> ('c \<rightharpoonup> 'd)))" where
  "upd3 m mc opk fn v =
     m(mc \<mapsto> (setdefault m mc Map.empty)
                (opk \<mapsto> (setdefault (setdefault m mc Map.empty) opk Map.empty)(fn \<mapsto> v)))"

definition del2 :: "('a \<rightharpoonup> 'b set) \<Rightarrow> 'a \<Rightarrow> 'b \<Rightarrow> ('a \<rightharpoonup> 'b set)" where
  "del2 m mc n = m(mc \<mapsto> insert n (setdefault m mc {}))"

text \<open>What a Change that parses without exception does to the handle.\<close>

datatype 'j effect =
    Upd "model_cls option" "pkv option" "string option" 'j
  | Del "model_cls option" int
  | Skip

fun apply_effect :: "'j effect \<Rightarrow> 'j changeset \<Rightarrow> 'j changeset" where
  "apply_effect (Upd mc opk fn v) S = S\<lparr>updated_values := upd3 (updated_values S) mc opk fn v\<rparr>"
| "apply_effect (Del mc n) S = S\<lparr>deleted_existing := del2 (deleted_existing S) mc n\<rparr>"
| "apply_effect Skip S = S"

text \<open>A handle changes under \<open>parse_changes\<close> in its two dictionaries only.\<close>

definition only_projection :: "'j changeset \<Rightarrow> 'j changeset \<Rightarrow> bool" where
  "only_projection S S' =
     (S' = S\<lparr>updated_values := updated_values S', deleted_existing := deleted_existing S'\<rparr>)"

subsection \<open>A concrete setting for the examples\<close>

definition Area :: model_cls where
  "Area = \<lparr>cls_name = ''Area'', cls_is_model = True, cls_abstract = False, cls_app_label = ''mapdata''\<rparr>"

definition POI :: model_cls where
  "POI = \<lparr>cls_name = ''POI'', cls_is_model = True, cls_abstract = False, cls_app_label = ''mapdata''\<rparr>"

text \<open>\<open>int(s)\<close> on a string of decimal digits.\<close>

fun digits_value :: "string \<Rightarrow> nat \<Rightarrow> nat option" where
  "digits_value [] acc = Some acc"
| "digits_value (c # cs) acc =
     (if (48::nat) \<le> of_char c \<and> (of_char c :: nat) \<le> 57
      then digits_value cs (10 * acc + (of_char c - 48))
      else None)"

definition demo_int :: "string \<Rightarrow> int option" where
  "demo_int s = (if s = [] then None else map_option int (digits_value s 0))"

text \<open>Two models are registered; a field value is kept as its JSON text.\<close>

definition demo_env :: "string env" where
  "demo_env =
     \<lparr>get_model = (\<lambda>n. if n = ''Area'' then Some Area else if n = ''POI'' then Some POI else None),
      json_loads = (\<lambda>s. case s of
                           None \<Rightarrow> Inl (TypeError ''the JSON object must be str, not NoneType'')
                         | Some t \<Rightarrow> Inr t),
      json_dumps = (\<lambda>v. v),
      py_int = demo_int\<rparr>"

text \<open>Change set 1 of user 1, open; the store holds Area 42; the next Change is number 7.\<close>

definition demo_cs :: "string changeset" where
  "demo_cs = (new_changeset :: string changeset)\<lparr>cs_pk := Some 1, cs_created := Some 10, cs_author_id := Some 1\<rparr>"

definition demo_db :: db where
  "demo_db =
     \<lparr>change_rows = [], next_change_pk = 7,
      changeset_rows = [\<lparr>row_pk = 1, row_created = 10, row_author_id = Some 1, row_proposed = None,
                         row_applied = None, row_applied_by_id = None\<rparr>],
      next_changeset_pk = 2, stored = {(Area, 42)}, now = 20\<rparr>"

text \<open>An update of Area 42, as read from the table.\<close>

definition demo_update :: "string \<Rightarrow> string \<Rightarrow> change" where
  "demo_update fname val =
     \<lparr>pk = Some 1, changeset_id = Some 1, author_id = Some 1, created = Some 11, action = ''update'',
      deletes_change = None, model_name = Some ''Area'', existing_object_pk = Some 42,
      created_object = None, field_name = Some fname, field_value = Some val, set_object = None\<rparr>"

text \<open>A delete-change that points to Change 1, and an add-relation Change on Area 42.\<close>

definition demo_delchange :: change where
  "demo_delchange =
     \<lparr>pk = Some 2, changeset_id = Some 1, author_id = Some 1, created = Some 12, action = ''delchange'',
      deletes_change = Some \<lparr>ref_pk = Some 1, ref_changeset_id = Some 1, ref_model_name = Some ''Area''\<rparr>,
      model_name = None, existing_object_pk = None, created_object = None, field_name = None,
      field_value = None, set_object = None\<rparr>"

definition demo_m2m_add :: change where
  "demo_m2m_add = (demo_update ''groups'' ''[3]'')\<lparr>action := ''m2m_add''\<rparr>"

text \<open>New Changes of change set 1: an update of Area 43, which the store does not hold; an
  update of Area 42 with neither field name nor value; a delete with a field name, of an
  object that Change 7 of the change set created.\<close>

definition demo_new :: change where
  "demo_new = (new_instance demo_cs)\<lparr>author_id := Some 1, model_name := Some ''Area''\<rparr>"

definition demo_update_missing :: change where
  "demo_update_missing =
     demo_new\<lparr>action := ''update'', existing_object_pk := Some 43, field_name := Some ''name'',
              field_value := Some ''X''\<rparr>"

definition demo_update_no_value :: change where
  "demo_update_no_value = demo_new\<lparr>action := ''update'', existing_object_pk := Some 42\<rparr>"

definition demo_delete_pending :: change where
  "demo_delete_pending =
     demo_new\<lparr>action := ''delete'',
              created_object := Some \<lparr>ref_pk = Some 7, ref_changeset_id = Some 1,
                                      ref_model_name = Some ''Area''\<rparr>,
              field_name := Some ''name''\<rparr>"

text \<open>For the witness of the rejections: a delete-change with a model name, a delete-change
  of a Change of change set 2, and a create with a field value.\<close>

definition demo_delchange_model :: change where
  "demo_delchange_model = demo_delchange\<lparr>pk := None, model_name := Some ''Area''\<rparr>"

definition demo_delchange_foreign :: change where
  "demo_delchange_foreign =
     demo_delchange\<lparr>pk := None,
       deletes_change := Some \<lparr>ref_pk = Some 1, ref_changeset_id = Some 2, ref_model_name = Some ''Area''\<rparr>\<rparr>"

definition demo_create_value :: change where
  "demo_create_value = demo_new\<lparr>action := ''create'', field_value := Some ''X''\<rparr>"

text \<open>Change set 1 once it is applied, and a valid new Change of each action.\<close>

definition demo_cs_applied :: "string changeset" where
  "demo_cs_applied = demo_cs\<lparr>cs_proposed := Some 15, cs_applied := Some 16, cs_applied_by_id := Some 2\<rparr>"

definition demo_create :: change where
  "demo_create = demo_new\<lparr>action := ''create''\<rparr>"

definition demo_delete :: change where
  "demo_delete = demo_new\<lparr>action := ''delete'', existing_object_pk := Some 42\<rparr>"

definition demo_field_change :: "string \<Rightarrow> change" where
  "demo_field_change act =
     demo_new\<lparr>action := act, existing_object_pk := Some 42, field_name := Some ''name'',
              field_value := Some ''X''\<rparr>"

definition demo_new_delchange :: change where
  "demo_new_delchange = demo_delchange\<lparr>pk := None, created := None\<rparr>"

text \<open>A store with two change sets of user 1: number 1, proposed and not applied, and the
  older number 2, open. The request is of user 1, with nothing in the session.\<close>

definition demo_db_proposed :: db where
  "demo_db_proposed =
     demo_db\<lparr>changeset_rows :=
       [\<lparr>row_pk = 1, row_created = 10, row_author_id = Some 1, row_proposed = Some 15,
         row_applied = None, row_applied_by_id = None\<rparr>,
        \<lparr>row_pk = 2, row_created = 5, row_author_id = Some 1, row_proposed = None,
         row_applied = None, row_applied_by_id = None\<rparr>],
       next_changeset_pk := 3\<rparr>"

definition demo_req :: request where
  "demo_req = \<lparr>req_user = User 1, session_changeset_pk = None\<rparr>"

text \<open>Wrappers of change set 1: of Area 42, and of a POI that is not saved yet. The store
  after Change 7 created a POI.\<close>

definition demo_wrapper_area :: wrapper where
  "demo_wrapper_area = \<lparr>w_pk = Some (IntPk 42), w_changeset_id = Some 1, w_obj_class = Area\<rparr>"

definition demo_wrapper_poi :: wrapper where
  "demo_wrapper_poi = \<lparr>w_pk = None, w_changeset_id = Some 1, w_obj_class = POI\<rparr>"

definition demo_ref7 :: change_ref where
  "demo_ref7 = \<lparr>ref_pk = Some 7, ref_changeset_id = Some 1, ref_model_name = Some ''POI''\<rparr>"

definition demo_db_created :: db where
  "demo_db_created =
     demo_db\<lparr>change_rows :=
       [(new_instance demo_cs)\<lparr>pk := Some 7, author_id := Some 1, created := Some 20,
          action := ''create'', model_name := Some ''POI''\<rparr>],
       next_change_pk := 8\<rparr>"

text \<open>A Change with both references set and a cached target object; the same without the
  cache; and an update, as read from the table, of the POI that Change 7 created.\<close>

definition demo_both_cached :: change where
  "demo_both_cached =
     demo_new\<lparr>action := ''update'', existing_object_pk := Some 42, created_object := Some demo_ref7,
              set_object := Some demo_wrapper_area\<rparr>"

definition demo_both :: change where
  "demo_both = demo_both_cached\<lparr>set_object := None\<rparr>"

definition demo_update_created :: change where
  "demo_update_created =
     (new_instance demo_cs)\<lparr>pk := Some 8, author_id := Some 1, created := Some 20, action := ''update'',
        model_name := Some ''POI'', created_object := Some demo_ref7, field_name := Some ''title'',
        field_value := Some ''Lobby''\<rparr>"

text \<open>Change set 1 with two pending creations: Changes 7 and 8 each create a POI, Changes 9
  and 10 set \<open>level\<close> of the POI of Change 7 to 1 and then to 2, Change 11 sets \<open>level\<close>
  of the POI of Change 8 to 3. The rows are as the table holds them; \<open>demo_db_after k\<close> is
  the store when the first \<open>k\<close> of them are in.\<close>

definition demo_created :: "int \<Rightarrow> change" where
  "demo_created n =
     (new_instance demo_cs)\<lparr>pk := Some n, author_id := Some 1, created := Some 20,
        action := ''create'', model_name := Some ''POI''\<rparr>"

definition demo_ref :: "int \<Rightarrow> change_ref" where
  "demo_ref n = \<lparr>ref_pk = Some n, ref_changeset_id = Some 1, ref_model_name = Some ''POI''\<rparr>"

definition demo_level :: "int \<Rightarrow> int \<Rightarrow> string \<Rightarrow> change" where
  "demo_level n creation v =
     (new_instance demo_cs)\<lparr>pk := Some n, author_id := Some 1, created := Some 20,
        action := ''update'', model_name := Some ''POI'', created_object := Some (demo_ref creation),
        field_name := Some ''level'', field_value := Some v\<rparr>"

definition demo_log_pending :: "change list" where
  "demo_log_pending =
     [demo_created 7, demo_created 8, demo_level 9 7 ''1'', demo_level 10 7 ''2'',
      demo_level 11 8 ''3'']"

definition demo_db_after :: "nat \<Rightarrow> db" where
  "demo_db_after k =
     demo_db\<lparr>change_rows := take k demo_log_pending, next_change_pk := 7 + int k\<rparr>"

definition demo_pending_wrapper :: "string \<Rightarrow> wrapper" where
  "demo_pending_wrapper ident = \<lparr>w_pk = Some (StrPk ident), w_changeset_id = Some 1, w_obj_class = POI\<rparr>"

section \<open>Properties\<close>

subsection \<open>Evaluating the examples\<close>

lemmas parse_defs = parse_changes_def parse_change_def model_class_def model_class_of_name_def
  obj_pk_def setdefault_def Let_def

subsection \<open>The fold of the log\<close>

lemma parse_loop_append:
  "parse_loop E (xs @ ys) S =
     (case parse_loop E xs S of (Inl e, S') \<Rightarrow> (Inl e, S') | (Inr u, S') \<Rightarrow> parse_loop E ys S')"
  by (induction xs arbitrary: S) (auto split: prod.splits sum.splits)

lemma parse_change_skip:
  "action c \<noteq> ''update'' \<Longrightarrow> action c \<noteq> ''delete'' \<Longrightarrow> parse_change E c S = (Inr (), S)"
  by (simp add: parse_change_def)

lemma parse_loop_skip:
  assumes "action c \<noteq> ''update''" "action c \<noteq> ''delete''"
  shows "parse_loop E (xs @ c # ys) S = parse_loop E (xs @ ys) S"
  using assms by (simp add: parse_loop_append parse_change_skip split: prod.splits sum.splits)

lemma upd3_idem: "upd3 (upd3 m mc opk fn v) mc opk fn v = upd3 m mc opk fn v"
  by (auto simp: upd3_def setdefault_def fun_eq_iff split: option.splits)

lemma upd3_absorb: "upd3 (upd3 m mc opk fn v) mc opk fn w = upd3 m mc opk fn w"
  by (auto simp: upd3_def setdefault_def fun_eq_iff split: option.splits)

lemma upd3_commute: "(mc, opk, fn) \<noteq> (mc', opk', fn') \<Longrightarrow>
   upd3 (upd3 m mc opk fn v) mc' opk' fn' w = upd3 (upd3 m mc' opk' fn' w) mc opk fn v"
  by (auto simp: upd3_def setdefault_def fun_eq_iff split: option.splits)

lemma del2_commute: "del2 (del2 m mc n) mc' n' = del2 (del2 m mc' n') mc n"
  by (auto simp: del2_def setdefault_def fun_eq_iff split: option.splits)

lemma del2_idem: "del2 (del2 m mc n) mc n = del2 m mc n"
  by (auto simp: del2_def setdefault_def fun_eq_iff split: option.splits)

lemma parse_change_effect:
  assumes "parse_change E c S = (Inr (), S')"
  shows "\<exists>eff. \<forall>T. parse_change E c T = (Inr (), apply_effect eff T)"
proof (cases "action c = ''update''")
  case True
  with assms obtain mc opk v where
    "model_class E c = Inr mc" "obj_pk c = Inr opk" "json_loads E (field_value c) = Inr v"
    by (auto simp: parse_change_def Let_def split: sum.splits)
  with True have "\<forall>T. parse_change E c T = (Inr (), apply_effect (Upd mc opk (field_name c) v) T)"
    by (simp add: parse_change_def Let_def upd3_def)
  then show ?thesis ..
next
  case False
  show ?thesis
  proof (cases "action c = ''delete''")
    case d: True
    show ?thesis
    proof (cases "existing_object_pk c")
      case None
      with False d have "\<forall>T. parse_change E c T = (Inr (), apply_effect Skip T)"
        by (simp add: parse_change_def)
      then show ?thesis ..
    next
      case (Some n)
      with assms False d obtain mc where "model_class E c = Inr mc"
        by (auto simp: parse_change_def split: sum.splits)
      with False d Some have "\<forall>T. parse_change E c T = (Inr (), apply_effect (Del mc n) T)"
        by (simp add: parse_change_def del2_def)
      then show ?thesis ..
    qed
  next
    case nd: False
    with False have "\<forall>T. parse_change E c T = (Inr (), apply_effect Skip T)"
      by (simp add: parse_change_def)
    then show ?thesis ..
  qed
qed

lemma parse_loop_effects:
  "parse_loop E log S = (Inr (), S') \<Longrightarrow>
     \<exists>effs. \<forall>T. parse_loop E log T = (Inr (), fold apply_effect effs T)"
proof (induction log arbitrary: S)
  case Nil
  have "\<forall>T. parse_loop E [] T = (Inr (), fold apply_effect [] T)" by simp
  then show ?case ..
next
  case (Cons c log)
  from Cons.prems obtain S1 where c: "parse_change E c S = (Inr (), S1)"
    and rest: "parse_loop E log S1 = (Inr (), S')"
    by (auto split: prod.splits sum.splits)
  from parse_change_effect [OF c] obtain eff where
    eff: "\<forall>T. parse_change E c T = (Inr (), apply_effect eff T)" ..
  from Cons.IH [OF rest] obtain effs where
    effs: "\<forall>T. parse_loop E log T = (Inr (), fold apply_effect effs T)" ..
  have "\<forall>T. parse_loop E (c # log) T = (Inr (), fold apply_effect (eff # effs) T)"
    by (simp add: eff effs)
  then show ?case ..
qed

lemma apply_effect_idem: "apply_effect a (apply_effect a S) = apply_effect a S"
  by (cases a) (simp_all add: upd3_idem del2_idem)

lemma apply_effect_pair:
  "(\<forall>S. apply_effect b (apply_effect a S) = apply_effect a (apply_effect b S))
   \<or> (\<forall>S. apply_effect b (apply_effect a S) = apply_effect b S)"
proof (cases a)
  case (Upd mc opk fn v)
  show ?thesis
  proof (cases b)
    case (Upd mc' opk' fn' w)
    show ?thesis
    proof (cases "(mc, opk, fn) = (mc', opk', fn')")
      case True
      then show ?thesis using \<open>a = _\<close> \<open>b = _\<close> by (simp add: upd3_absorb)
    next
      case False
      have "apply_effect b (apply_effect a S) = apply_effect a (apply_effect b S)" for S
        using upd3_commute [OF False, of "updated_values S" v w] \<open>a = _\<close> \<open>b = _\<close> by simp
      then have "\<forall>S. apply_effect b (apply_effect a S) = apply_effect a (apply_effect b S)" ..
      then show ?thesis ..

    qed
  qed (simp_all add: \<open>a = _\<close>)
next
  case (Del mc n)
  then show ?thesis by (cases b) (simp_all add: del2_commute)
next
  case Skip
  then show ?thesis by simp
qed

lemma fold_absorb:
  "apply_effect a (fold apply_effect u (apply_effect a S)) = apply_effect a (fold apply_effect u S)"
proof (induction u arbitrary: S)
  case Nil
  show ?case by (simp add: apply_effect_idem)
next
  case (Cons b u)
  from apply_effect_pair [of b a] show ?case
  proof
    assume "\<forall>S. apply_effect b (apply_effect a S) = apply_effect a (apply_effect b S)"
    then show ?thesis using Cons.IH [of "apply_effect b S"] by simp
  next
    assume "\<forall>S. apply_effect b (apply_effect a S) = apply_effect b S"
    then show ?thesis by simp
  qed
qed

lemma fold_idem:
  "fold apply_effect u (fold apply_effect u S) = fold apply_effect u S"
proof (induction u arbitrary: S rule: rev_induct)
  case Nil
  show ?case by simp
next
  case (snoc a u)
  show ?case using fold_absorb [of a u "fold apply_effect u S"] snoc.IH [of S] by simp
qed

lemma parse_loop_idem:
  assumes "parse_loop E log S = (Inr (), S')"
  shows "parse_loop E log S' = (Inr (), S')"
proof -
  from parse_loop_effects [OF assms] obtain effs where
    effs: "\<forall>T. parse_loop E log T = (Inr (), fold apply_effect effs T)" ..
  from effs assms have "S' = fold apply_effect effs S" by simp
  with effs show ?thesis by (simp add: fold_idem)
qed

lemma parse_change_parsed: "parsed (snd (parse_change E c S)) = parsed S"
  by (simp add: parse_change_def Let_def split: sum.splits option.splits)

lemma parse_loop_parsed: "parsed (snd (parse_loop E log S)) = parsed S"
proof (induction log arbitrary: S)
  case Nil
  show ?case by simp
next
  case (Cons c log)
  obtain r S1 where pc: "parse_change E c S = (r, S1)" by (cases "parse_change E c S")
  with parse_change_parsed [of E c S] have S1: "parsed S1 = parsed S" by simp
  show ?case
  proof (cases r)
    case (Inl e)
    with pc S1 show ?thesis by simp
  next
    case (Inr u)
    with pc have "parse_loop E (c # log) S = parse_loop E log S1" by simp
    with Cons.IH [of S1] S1 show ?thesis by simp
  qed
qed

lemma parse_change_not_update:
  "action c \<noteq> ''update'' \<Longrightarrow> updated_values (snd (parse_change E c S)) = updated_values S"
  by (simp add: parse_change_def split: option.splits sum.splits)

lemma parse_change_status: "fst (parse_change E c S) = fst (parse_change E c T)"
  by (simp add: parse_change_def Let_def split: option.splits sum.splits)

lemma parse_change_update_values:
  assumes "action c = ''update''" and "updated_values S = updated_values T"
  shows "updated_values (snd (parse_change E c S)) = updated_values (snd (parse_change E c T))"
  using assms by (simp add: parse_change_def Let_def split: option.splits sum.splits)

lemma parse_loop_updates_only:
  assumes "parse_loop E log S = (Inr (), S')" and "updated_values S = updated_values T"
  shows "\<exists>T'. parse_loop E (filter (\<lambda>c. action c = ''update'') log) T = (Inr (), T')
           \<and> updated_values S' = updated_values T'"
  using assms
proof (induction log arbitrary: S T)
  case Nil
  then show ?case by simp
next
  case (Cons c log)
  from Cons.prems(1) obtain S1 where c: "parse_change E c S = (Inr (), S1)"
    and rest: "parse_loop E log S1 = (Inr (), S')"
    by (auto split: prod.splits sum.splits)
  show ?case
  proof (cases "action c = ''update''")
    case True
    obtain r T1 where t: "parse_change E c T = (r, T1)" by (cases "parse_change E c T")
    from parse_change_status [of E c S T] c t have r: "r = Inr ()" by simp
    from parse_change_update_values [OF True Cons.prems(2), of E] c t
    have "updated_values S1 = updated_values T1" by simp
    from Cons.IH [OF rest this] obtain T' where
      "parse_loop E (filter (\<lambda>c. action c = ''update'') log) T1 = (Inr (), T')"
      "updated_values S' = updated_values T'" by blast
    with True t r show ?thesis by simp
  next
    case False
    from parse_change_not_update [OF False, of E S] c Cons.prems(2)
    have "updated_values S1 = updated_values T" by simp
    from Cons.IH [OF rest this] False show ?thesis by simp
  qed
qed

subsection \<open>The claims about the projection\<close>

text \<open>C1, as the code has it: a delete-change is not folded. Wherever it stands in the log,
  \<open>parse_changes\<close> gives the projection of the log without it; nothing that the voided
  Change wrote is taken back.\<close>

theorem delchange_not_folded:
  assumes "action b = ''delchange''"
  shows "parse_changes E (xs @ b # ys) self = parse_changes E (xs @ ys) self"
  using assms by (simp add: parse_changes_def parse_loop_skip)

theorem delchange_not_folded_witness:
  "action demo_delchange = ''delchange'' \<and>
   parse_changes demo_env ([demo_update ''name'' ''X''] @ demo_delchange # []) demo_cs
     = parse_changes demo_env ([demo_update ''name'' ''X''] @ []) demo_cs"
  using delchange_not_folded [of demo_delchange demo_env "[demo_update ''name'' ''X'']" "[]" demo_cs]
  by (simp add: demo_delchange_def)

text \<open>C1 as stated fails: Change 1 sets \<open>name\<close> of Area 42; Change 2 voids Change 1
  and, as a new Change, passes \<open>clean\<close>; the projection of the log still holds the value
  of Change 1.\<close>

theorem delchange_rollback_counterexample:
  "fst (clean demo_env demo_db [demo_update ''name'' ''X''] demo_cs
          (demo_delchange\<lparr>pk := None, created := None\<rparr>)) = Inr () \<and>
   fst (parse_changes demo_env [demo_update ''name'' ''X'', demo_delchange] demo_cs) = Inr () \<and>
   lookup_value (snd (parse_changes demo_env [demo_update ''name'' ''X'', demo_delchange] demo_cs))
     (Some Area) (Some (IntPk 42)) (Some ''name'') = Some ''X''"
  by (simp add: clean_def delchange_fields_def parse_defs lookup_value_def demo_env_def demo_cs_def new_changeset_def Area_def POI_def demo_update_def demo_delchange_def demo_db_def)

text \<open>C3, as the code has it. Only update Changes are folded into \<open>updated_values\<close>:
  \<open>_parse_change\<close> of a Change whose action is not \<open>update\<close> leaves \<open>updated_values\<close>
  as it was, and a log that parses without exception gives the \<open>updated_values\<close> of its
  update Changes alone. \<open>m2m_add\<close> and \<open>m2m_remove\<close> Changes are not folded at all:
  wherever one stands in the log, \<open>parse_changes\<close> gives the projection of the log
  without it.\<close>

theorem m2m_not_folded:
  "(action c = ''m2m_add'' \<or> action c = ''m2m_remove''
      \<longrightarrow> parse_changes E (xs @ c # ys) self = parse_changes E (xs @ ys) self) \<and>
   (action c \<noteq> ''update''
      \<longrightarrow> updated_values (snd (parse_change E c self)) = updated_values self) \<and>
   (fst (parse_changes E log self) = Inr ()
      \<longrightarrow> fst (parse_changes E (filter (\<lambda>c. action c = ''update'') log) self) = Inr () \<and>
          updated_values (snd (parse_changes E log self))
            = updated_values (snd (parse_changes E (filter (\<lambda>c. action c = ''update'') log) self)))"
proof (intro conjI impI)
  assume "action c = ''m2m_add'' \<or> action c = ''m2m_remove''"
  then have "action c \<noteq> ''update''" "action c \<noteq> ''delete''" by auto
  then show "parse_changes E (xs @ c # ys) self = parse_changes E (xs @ ys) self"
    by (simp add: parse_changes_def parse_loop_skip)
next
  assume "action c \<noteq> ''update''"
  then show "updated_values (snd (parse_change E c self)) = updated_values self"
    by (rule parse_change_not_update)
next
  assume ok: "fst (parse_changes E log self) = Inr ()"
  let ?ups = "filter (\<lambda>c. action c = ''update'') log"
  have "fst (parse_changes E ?ups self) = Inr () \<and>
      updated_values (snd (parse_changes E log self)) = updated_values (snd (parse_changes E ?ups self))"
  proof (cases "parsed self")
    case True
    then show ?thesis by (simp add: parse_changes_def)
  next
    case False
    with ok have "fst (parse_loop E log self) = Inr ()" by (simp add: parse_changes_def)
    then have "parse_loop E log self = (Inr (), snd (parse_loop E log self))"
      by (cases "parse_loop E log self") simp
    from parse_loop_updates_only [OF this refl] obtain T' where
      "parse_loop E ?ups self = (Inr (), T')"
      "updated_values (snd (parse_loop E log self)) = updated_values T'" by blast
    with False show ?thesis by (simp add: parse_changes_def)
  qed
  then show "fst (parse_changes E ?ups self) = Inr ()"
    and "updated_values (snd (parse_changes E log self)) = updated_values (snd (parse_changes E ?ups self))"
    by simp_all
qed

theorem m2m_not_folded_witness:
  "parse_changes demo_env ([demo_update ''name'' ''X''] @ demo_m2m_add # []) demo_cs
     = parse_changes demo_env ([demo_update ''name'' ''X''] @ []) demo_cs \<and>
   updated_values (snd (parse_change demo_env ((demo_update ''name'' ''X'')\<lparr>action := ''delete''\<rparr>) demo_cs))
     = updated_values demo_cs \<and>
   updated_values (snd (parse_changes demo_env
       [demo_update ''name'' ''X'', demo_m2m_add, (demo_update ''name'' ''X'')\<lparr>action := ''delete''\<rparr>] demo_cs))
     = updated_values (snd (parse_changes demo_env [demo_update ''name'' ''X''] demo_cs))"
proof -
  let ?d = "(demo_update ''name'' ''X'')\<lparr>action := ''delete''\<rparr>"
  let ?log = "[demo_update ''name'' ''X'', demo_m2m_add, ?d]"
  have m: "action demo_m2m_add = ''m2m_add'' \<or> action demo_m2m_add = ''m2m_remove''"
    by (simp add: demo_m2m_add_def demo_update_def)
  have d: "action ?d \<noteq> ''update''" by simp
  have ok: "fst (parse_changes demo_env ?log demo_cs) = Inr ()"
    by (simp add: parse_defs demo_env_def demo_cs_def new_changeset_def Area_def POI_def
        demo_update_def demo_m2m_add_def)
  have f: "filter (\<lambda>c. action c = ''update'') ?log = [demo_update ''name'' ''X'']"
    by (simp add: demo_update_def demo_m2m_add_def)
  note t1 = m2m_not_folded [of demo_m2m_add demo_env "[demo_update ''name'' ''X'']" "[]" demo_cs ?log]
  note t2 = m2m_not_folded [of ?d demo_env "[]" "[]" demo_cs ?log]
  from t1 m have 1: "parse_changes demo_env ([demo_update ''name'' ''X''] @ demo_m2m_add # []) demo_cs
     = parse_changes demo_env ([demo_update ''name'' ''X''] @ []) demo_cs" by blast
  from t2 d have 2: "updated_values (snd (parse_change demo_env ?d demo_cs)) = updated_values demo_cs"
    by blast
  from t2 ok have "updated_values (snd (parse_changes demo_env ?log demo_cs))
      = updated_values (snd (parse_changes demo_env (filter (\<lambda>c. action c = ''update'') ?log) demo_cs))"
    by blast
  then have 3: "updated_values (snd (parse_changes demo_env ?log demo_cs))
      = updated_values (snd (parse_changes demo_env [demo_update ''name'' ''X''] demo_cs))"
    unfolding f .
  from 1 2 3 show ?thesis by blast
qed

text \<open>C3 as stated fails. \<open>add_m2m_add\<close> on field \<open>groups\<close> of Area 42 stores the Change
  and leaves the handle as it was; the stored add-relation Change leaves no entry in
  \<open>updated_values\<close> when the log is parsed, where the same Change with action \<open>update\<close>
  leaves one.\<close>

theorem m2m_folded_counterexample:
  "(case add_m2m_add demo_env demo_db [] demo_cs (Wrapped demo_wrapper_area) ''groups'' ''[3]'' None of
      (r, cs', D') \<Rightarrow>
        map_sum id action r = Inr ''m2m_add'' \<and> length (change_rows D') = 1 \<and> cs' = demo_cs) \<and>
   fst (parse_changes demo_env [demo_m2m_add] demo_cs) = Inr () \<and>
   updated_values (snd (parse_changes demo_env [demo_m2m_add] demo_cs)) (Some Area) = None \<and>
   lookup_value (snd (parse_changes demo_env [demo_m2m_add\<lparr>action := ''update''\<rparr>] demo_cs))
     (Some Area) (Some (IntPk 42)) (Some ''groups'') = Some ''[3]''"
  by (simp add: add_m2m_add_def add_value_def new_change_def save_def clean_def resolve_target_def
      obj_def insert_change_def set_obj_def set_model_class_def parse_defs lookup_value_def
      demo_env_def demo_cs_def new_changeset_def Area_def POI_def demo_update_def demo_m2m_add_def
      demo_db_def new_instance_def demo_wrapper_area_def)

text \<open>C6: \<open>parse_changes\<close> is a function of the log and the handle, and a second call on
  the handle that a first call without exception left behind returns that handle again
  (projection and all). The flag \<open>parsed\<close> is never set, so the second call folds the
  whole log once more; folding twice gives what folding once gave.\<close>

theorem parse_changes_idempotent:
  assumes "parse_changes E log self = (Inr (), self')"
  shows "parse_changes E log self' = (Inr (), self')"
proof (cases "parsed self")
  case True
  with assms show ?thesis by (simp add: parse_changes_def)
next
  case False
  with assms have l: "parse_loop E log self = (Inr (), self')" by (simp add: parse_changes_def)
  from parse_loop_parsed [of E log self] l False have "\<not> parsed self'" by simp
  with parse_loop_idem [OF l] show ?thesis by (simp add: parse_changes_def)
qed

theorem parse_changes_idempotent_witness:
  "parse_changes demo_env [demo_update ''name'' ''X'', demo_update ''name'' ''Y''] demo_cs
     = (Inr (), snd (parse_changes demo_env [demo_update ''name'' ''X'', demo_update ''name'' ''Y''] demo_cs)) \<and>
   parse_changes demo_env [demo_update ''name'' ''X'', demo_update ''name'' ''Y'']
       (snd (parse_changes demo_env [demo_update ''name'' ''X'', demo_update ''name'' ''Y''] demo_cs))
     = (Inr (), snd (parse_changes demo_env [demo_update ''name'' ''X'', demo_update ''name'' ''Y''] demo_cs))"
proof -
  let ?log = "[demo_update ''name'' ''X'', demo_update ''name'' ''Y'']"
  have "fst (parse_changes demo_env ?log demo_cs) = Inr ()"
    by (simp add: parse_defs demo_env_def demo_cs_def new_changeset_def Area_def POI_def demo_update_def)
  then have h: "parse_changes demo_env ?log demo_cs = (Inr (), snd (parse_changes demo_env ?log demo_cs))"
    by (metis prod.collapse)
  from parse_changes_idempotent [OF h] h show ?thesis by simp
qed

subsection \<open>Validation\<close>

lemma clean_delchange_fields:
  assumes "action c = ''delchange''"
    and "model_name c \<noteq> None \<or> existing_object_pk c \<noteq> None \<or> created_object c \<noteq> None
         \<or> field_name c \<noteq> None \<or> field_value c \<noteq> None"
  shows "\<exists>msg. fst (clean E D log cs c) = Inl (ValidationError msg)"
proof -
  from assms(2) obtain name b where "find snd (delchange_fields c) = Some (name, b)"
    by (cases "find snd (delchange_fields c)") (auto simp: delchange_fields_def split: if_splits)
  with assms(1) show ?thesis by (simp add: clean_def split: option.splits)
qed

lemma clean_delchange_foreign:
  assumes "action c = ''delchange''" "deletes_change c = Some d" "ref_changeset_id d \<noteq> changeset_id c"
  shows "fst (clean E D log cs c)
           = Inl (ValidationError ''deletes_change refers to a change from a different changeset.'')"
  using assms by (simp add: clean_def)

lemma clean_create_delete_fields:
  assumes "action c = ''create'' \<or> action c = ''delete''"
    and "field_name c \<noteq> None \<or> field_value c \<noteq> None"
  shows "\<exists>e. fst (clean E D log cs c) = Inl e
           \<and> ((\<exists>msg. e = ValidationError msg) \<or> fst (resolve_target E D log cs c) = Inl e)"
proof -
  from assms(1) have nd: "action c \<noteq> ''delchange''" by auto
  show ?thesis
  proof (cases "deletes_change c \<noteq> None \<or> model_name c = None")
    case True
    with nd show ?thesis by (auto simp: clean_def)
  next
    case False
    obtain r c' cs' where rt: "resolve_target E D log cs c = (r, c', cs')"
      by (cases "resolve_target E D log cs c") auto
    show ?thesis
    proof (cases r)
      case (Inl e)
      with rt nd False show ?thesis by (cases e) (auto simp: clean_def)
    next
      case (Inr u)
      have same: "action c' = action c \<and> field_name c' = field_name c \<and> field_value c' = field_value c"
        using rt by (auto simp: resolve_target_def obj_def wrap_def
            split: if_splits option.splits sum.splits prod.splits)
      with assms obtain name b where "find snd (create_delete_fields c') = Some (name, b)"
        by (cases "find snd (create_delete_fields c')") (auto simp: create_delete_fields_def split: if_splits)
      with Inr rt nd False same assms(1) show ?thesis by (auto simp: clean_def)
    qed
  qed
qed

text \<open>C5, as the code has it. \<open>clean\<close> raises ValidationError for a delete-change with
  any of model name, target reference, field name or field value set, and for a
  delete-change whose referenced Change belongs to another change set. A create or a
  delete with field name or field value set is never accepted: \<open>clean\<close> raises
  ValidationError, unless resolving the model class or the target raised an exception
  that \<open>clean\<close> does not catch, which then is the outcome. (Nothing is stated here about
  an update without field name or value.)\<close>

theorem clean_rejects:
  "(action c = ''delchange'' \<and>
      (model_name c \<noteq> None \<or> existing_object_pk c \<noteq> None \<or> created_object c \<noteq> None
       \<or> field_name c \<noteq> None \<or> field_value c \<noteq> None)
      \<longrightarrow> (\<exists>msg. fst (clean E D log cs c) = Inl (ValidationError msg))) \<and>
   (action c = ''delchange'' \<and> deletes_change c = Some d \<and> ref_changeset_id d \<noteq> changeset_id c
      \<longrightarrow> fst (clean E D log cs c)
            = Inl (ValidationError ''deletes_change refers to a change from a different changeset.'')) \<and>
   ((action c = ''create'' \<or> action c = ''delete'') \<and> (field_name c \<noteq> None \<or> field_value c \<noteq> None)
      \<longrightarrow> (\<exists>e. fst (clean E D log cs c) = Inl e
             \<and> ((\<exists>msg. e = ValidationError msg) \<or> fst (resolve_target E D log cs c) = Inl e)))"
  using clean_delchange_fields [of c E D log cs] clean_delchange_foreign [of c d E D log cs]
    clean_create_delete_fields [of c E D log cs]
  by blast

theorem clean_rejects_witness:
  "(\<exists>msg. fst (clean demo_env demo_db [] demo_cs demo_delchange_model) = Inl (ValidationError msg)) \<and>
   fst (clean demo_env demo_db [] demo_cs demo_delchange_foreign)
     = Inl (ValidationError ''deletes_change refers to a change from a different changeset.'') \<and>
   (\<exists>msg. fst (clean demo_env demo_db [] demo_cs demo_create_value) = Inl (ValidationError msg))"
proof -
  have a: "action demo_delchange_model = ''delchange'' \<and>
      (model_name demo_delchange_model \<noteq> None \<or> existing_object_pk demo_delchange_model \<noteq> None
       \<or> created_object demo_delchange_model \<noteq> None \<or> field_name demo_delchange_model \<noteq> None
       \<or> field_value demo_delchange_model \<noteq> None)"
    by (simp add: demo_env_def demo_cs_def new_changeset_def Area_def POI_def demo_db_def demo_new_def new_instance_def demo_delchange_def demo_delchange_model_def demo_delchange_foreign_def demo_create_value_def demo_update_no_value_def demo_delete_pending_def)
  have d: "action demo_delchange_foreign = ''delchange'' \<and>
      deletes_change demo_delchange_foreign
        = Some \<lparr>ref_pk = Some 1, ref_changeset_id = Some 2, ref_model_name = Some ''Area''\<rparr> \<and>
      ref_changeset_id \<lparr>ref_pk = Some 1, ref_changeset_id = Some 2, ref_model_name = Some ''Area''\<rparr>
        \<noteq> changeset_id demo_delchange_foreign"
    by (simp add: demo_env_def demo_cs_def new_changeset_def Area_def POI_def demo_db_def demo_new_def new_instance_def demo_delchange_def demo_delchange_model_def demo_delchange_foreign_def demo_create_value_def demo_update_no_value_def demo_delete_pending_def)
  have c: "(action demo_create_value = ''create'' \<or> action demo_create_value = ''delete'') \<and>
      (field_name demo_create_value \<noteq> None \<or> field_value demo_create_value \<noteq> None)"
    by (simp add: demo_env_def demo_cs_def new_changeset_def Area_def POI_def demo_db_def demo_new_def new_instance_def demo_delchange_def demo_delchange_model_def demo_delchange_foreign_def demo_create_value_def demo_update_no_value_def demo_delete_pending_def)
  have r: "fst (resolve_target demo_env demo_db [] demo_cs demo_create_value) = Inr ()"
    by (simp add: resolve_target_def parse_defs demo_env_def demo_cs_def new_changeset_def Area_def POI_def demo_db_def demo_new_def new_instance_def demo_delchange_def demo_delchange_model_def demo_delchange_foreign_def demo_create_value_def demo_update_no_value_def demo_delete_pending_def)
  from clean_rejects [of demo_delchange_model demo_env demo_db "[]" demo_cs] a
  have 1: "\<exists>msg. fst (clean demo_env demo_db [] demo_cs demo_delchange_model) = Inl (ValidationError msg)"
    by blast
  from clean_rejects [of demo_delchange_foreign demo_env demo_db "[]" demo_cs
      "\<lparr>ref_pk = Some 1, ref_changeset_id = Some 2, ref_model_name = Some ''Area''\<rparr>"] d
  have 2: "fst (clean demo_env demo_db [] demo_cs demo_delchange_foreign)
     = Inl (ValidationError ''deletes_change refers to a change from a different changeset.'')"
    by blast
  from clean_rejects [of demo_create_value demo_env demo_db "[]" demo_cs] c
  obtain e where e: "fst (clean demo_env demo_db [] demo_cs demo_create_value) = Inl e"
    "(\<exists>msg. e = ValidationError msg) \<or> fst (resolve_target demo_env demo_db [] demo_cs demo_create_value) = Inl e"
    by blast
  with r have 3: "\<exists>msg. fst (clean demo_env demo_db [] demo_cs demo_create_value) = Inl (ValidationError msg)"
    by auto
  from 1 2 3 show ?thesis by blast
qed

text \<open>C5 as stated fails twice. An update of Area 42 with neither field name nor field
  value passes \<open>clean\<close>. A delete with a field name whose target is an object created in
  the same change set ends in NotImplementedError, which is not a ValidationError.\<close>

theorem clean_rejects_counterexample:
  "fst (clean demo_env demo_db [] demo_cs demo_update_no_value) = Inr () \<and>
   fst (clean demo_env demo_db [] demo_cs demo_delete_pending) = Inl NotImplementedError"
  by (simp add: clean_def resolve_target_def obj_def wrap_def parse_defs demo_env_def demo_cs_def new_changeset_def Area_def POI_def demo_db_def demo_new_def new_instance_def demo_delchange_def demo_delchange_model_def demo_delchange_foreign_def demo_create_value_def demo_update_no_value_def demo_delete_pending_def)

text \<open>C9, as the code has it. The store's \<open>ObjectDoesNotExist\<close> (the spec's NotFoundError)
  is caught by \<open>clean\<close> and raised again as ValidationError. For a Change that is neither
  a create nor a delete-change, has no \<open>deletes_change\<close>, a model name that is
  registered, no cached target object, and whose target is the persisted identity \<open>k\<close>
  that the store does not hold, \<open>clean\<close> raises ValidationError with the message
  "existing object does not exist.".\<close>

theorem missing_record_is_validation_error:
  assumes "action self \<noteq> ''delchange''" and "action self \<noteq> ''create''"
    and "deletes_change self = None"
    and "model_name self = Some n" and "get_model E n = Some m"
    and "set_object self = None"
    and "existing_object_pk self = Some k" and "created_object self = None"
    and "(m, k) \<notin> stored D"
  shows "fst (clean E D log cs self) = Inl (ValidationError ''existing object does not exist.'')"
  using assms
  by (simp add: clean_def resolve_target_def obj_def model_class_def model_class_of_name_def)

theorem missing_record_is_validation_error_witness:
  "fst (clean demo_env demo_db [] demo_cs demo_update_missing)
     = Inl (ValidationError ''existing object does not exist.'')"
proof -
  have "action demo_update_missing \<noteq> ''delchange''" "action demo_update_missing \<noteq> ''create''"
    "deletes_change demo_update_missing = None"
    "model_name demo_update_missing = Some ''Area''" "get_model demo_env ''Area'' = Some Area"
    "set_object demo_update_missing = None"
    "existing_object_pk demo_update_missing = Some 43" "created_object demo_update_missing = None"
    "(Area, 43) \<notin> stored demo_db"
    by (simp_all add: demo_env_def demo_db_def demo_update_missing_def demo_new_def new_instance_def)
  from missing_record_is_validation_error [OF this] show ?thesis .
qed

text \<open>C9 as stated fails: for the update of Area 43, which the store does not hold,
  \<open>clean\<close> ends in ValidationError, not in the store's \<open>ObjectDoesNotExist\<close>.\<close>

theorem missing_record_counterexample:
  "fst (clean demo_env demo_db [] demo_cs demo_update_missing) \<noteq> Inl ObjectDoesNotExist \<and>
   fst (clean demo_env demo_db [] demo_cs demo_update_missing)
     = Inl (ValidationError ''existing object does not exist.'')"
  by (simp add: clean_def resolve_target_def obj_def parse_defs demo_env_def demo_cs_def new_changeset_def Area_def POI_def demo_db_def demo_new_def new_instance_def demo_update_missing_def)

subsection \<open>What parsing and validation leave alone\<close>

lemma only_projection_refl: "only_projection S S"
  by (simp add: only_projection_def)

lemma only_projection_trans:
  "only_projection S S' \<Longrightarrow> only_projection S' S'' \<Longrightarrow> only_projection S S''"
  unfolding only_projection_def
  by (cases S, cases S', cases S'') simp

lemma only_projection_fields:
  assumes "only_projection S S'"
  shows "cs_pk S' = cs_pk S" and "cs_proposed S' = cs_proposed S" and "cs_applied S' = cs_applied S"
    and "parsed S' = parsed S" and "default_author S' = default_author S"
proof -
  from assms have e: "S' = S\<lparr>updated_values := updated_values S', deleted_existing := deleted_existing S'\<rparr>"
    by (simp add: only_projection_def)
  show "cs_pk S' = cs_pk S" by (subst e) simp
  show "cs_proposed S' = cs_proposed S" by (subst e) simp
  show "cs_applied S' = cs_applied S" by (subst e) simp
  show "parsed S' = parsed S" by (subst e) simp
  show "default_author S' = default_author S" by (subst e) simp
qed

lemma parse_change_frame: "only_projection S (snd (parse_change E c S))"
  by (simp add: parse_change_def only_projection_def Let_def split: sum.splits option.splits)

lemma parse_loop_frame: "only_projection S (snd (parse_loop E log S))"
proof (induction log arbitrary: S)
  case Nil
  show ?case by (simp add: only_projection_refl)
next
  case (Cons c log)
  obtain r S1 where pc: "parse_change E c S = (r, S1)" by (cases "parse_change E c S")
  with parse_change_frame [of S E c] have S1: "only_projection S S1" by simp
  show ?case
  proof (cases r)
    case (Inl e)
    with pc S1 show ?thesis by simp
  next
    case (Inr u)
    with pc have "parse_loop E (c # log) S = parse_loop E log S1" by simp
    with only_projection_trans [OF S1 Cons.IH [of S1]] show ?thesis by simp
  qed
qed

lemma parse_changes_frame: "only_projection S (snd (parse_changes E log S))"
  by (simp add: parse_changes_def parse_loop_frame only_projection_refl)

lemma wrap_frame: "only_projection cs (snd (wrap E log cs i))"
  using parse_changes_frame [of cs E log]
  by (auto simp: wrap_def split: prod.splits sum.splits)

lemma wrap_frame_result: "wrap E log cs i = (r, cs') \<Longrightarrow> only_projection cs cs'"
  using wrap_frame [of cs E log i] by simp

lemma obj_frame:
  assumes "obj E D log cs self = (r, self', cs')"
  shows "only_projection cs cs'" and "self' = self\<lparr>set_object := set_object self'\<rparr>"
proof -
  from assms show "only_projection cs cs'"
    by (auto simp: obj_def only_projection_refl dest: wrap_frame_result
        split: option.splits sum.splits if_splits prod.splits)
  from assms show "self' = self\<lparr>set_object := set_object self'\<rparr>"
    by (auto simp: obj_def split: option.splits sum.splits if_splits prod.splits)
qed

lemma resolve_target_frame:
  assumes "resolve_target E D log cs self = (r, self', cs')"
  shows "only_projection cs cs'" and "self' = self\<lparr>set_object := set_object self'\<rparr>"
proof -
  obtain r0 s0 c0 where o: "obj E D log cs self = (r0, s0, c0)" by (cases "obj E D log cs self") auto
  from assms o obj_frame(1) [OF o] show "only_projection cs cs'"
    by (auto simp: resolve_target_def only_projection_refl split: if_splits sum.splits)
  from assms o obj_frame(2) [OF o] show "self' = self\<lparr>set_object := set_object self'\<rparr>"
    by (auto simp: resolve_target_def split: if_splits sum.splits)
qed

lemma clean_frame:
  assumes "clean E D log cs self = (r, self', cs')"
  shows "only_projection cs cs'" and "self' = self\<lparr>set_object := set_object self'\<rparr>"
proof -
  obtain r0 s0 c0 where t: "resolve_target E D log cs self = (r0, s0, c0)"
    by (cases "resolve_target E D log cs self") auto
  have a: "(self' = self \<and> cs' = cs) \<or> (self' = s0 \<and> cs' = c0)"
    using assms t
    by (auto simp: clean_def split: if_splits option.splits sum.splits error.splits prod.splits)
  from a resolve_target_frame(1) [OF t] show "only_projection cs cs'"
    by (auto simp: only_projection_refl)
  from a resolve_target_frame(2) [OF t] show "self' = self\<lparr>set_object := set_object self'\<rparr>"
    by auto
qed

lemma clean_keeps_pk:
  assumes "clean E D log cs self = (r, self', cs')"
  shows "pk self' = pk self"
proof -
  from clean_frame(2) [OF assms] have "self' = self\<lparr>set_object := set_object self'\<rparr>" .
  then have "pk self' = pk (self\<lparr>set_object := set_object self'\<rparr>)" by simp
  then show ?thesis by simp
qed

subsection \<open>Saving into a change set that is not open\<close>

text \<open>C4, as the code has it. \<open>save\<close> of any Change into a change set whose proposed or
  applied timestamp is set raises and leaves the store as it was. \<open>clean\<close> runs first:
  an exception of \<open>clean\<close> is the outcome; a new Change that passes \<open>clean\<close> meets the
  TypeError "can not add change object to uneditable changeset." (the spec's StateError).\<close>

theorem save_on_closed_changeset:
  assumes "cs_proposed cs \<noteq> None \<or> cs_applied cs \<noteq> None"
  shows "(\<exists>e. fst (save E D log cs self) = Inl e) \<and>
         snd (snd (snd (save E D log cs self))) = D \<and>
         (\<forall>e. fst (clean E D log cs self) = Inl e \<longrightarrow> fst (save E D log cs self) = Inl e) \<and>
         (fst (clean E D log cs self) = Inr () \<and> pk self = None \<longrightarrow>
            fst (save E D log cs self)
              = Inl (TypeError ''can not add change object to uneditable changeset.''))"
proof -
  obtain r self' cs' where c: "clean E D log cs self = (r, self', cs')"
    by (cases "clean E D log cs self") auto
  from only_projection_fields(2,3) [OF clean_frame(1) [OF c]] assms
  have closed: "cs_proposed cs' \<noteq> None \<or> cs_applied cs' \<noteq> None" by simp
  from clean_keeps_pk [OF c] have pk: "pk self' = pk self" .
  show ?thesis
  proof (cases r)
    case (Inl e)
    with c show ?thesis by (simp add: save_def)
  next
    case (Inr u)
    with c closed pk show ?thesis by (auto simp: save_def)
  qed
qed

theorem save_on_closed_changeset_witness:
  "fst (save demo_env demo_db [] demo_cs_applied demo_create)
     = Inl (TypeError ''can not add change object to uneditable changeset.'') \<and>
   fst (save demo_env demo_db [] demo_cs_applied demo_delete)
     = Inl (TypeError ''can not add change object to uneditable changeset.'') \<and>
   fst (save demo_env demo_db [] demo_cs_applied (demo_field_change ''update''))
     = Inl (TypeError ''can not add change object to uneditable changeset.'') \<and>
   fst (save demo_env demo_db [] demo_cs_applied (demo_field_change ''m2m_add''))
     = Inl (TypeError ''can not add change object to uneditable changeset.'') \<and>
   fst (save demo_env demo_db [] demo_cs_applied (demo_field_change ''m2m_remove''))
     = Inl (TypeError ''can not add change object to uneditable changeset.'') \<and>
   fst (save demo_env demo_db [] demo_cs_applied demo_new_delchange)
     = Inl (TypeError ''can not add change object to uneditable changeset.'') \<and>
   snd (snd (snd (save demo_env demo_db [] demo_cs_applied (demo_field_change ''update'')))) = demo_db \<and>
   fst (save demo_env demo_db [] demo_cs_applied (demo_new\<lparr>action := ''update'', model_name := None\<rparr>))
     = Inl (ValidationError ''model_name has to be set if action is not delchange.'')"
proof -
  have closed: "cs_proposed demo_cs_applied \<noteq> None \<or> cs_applied demo_cs_applied \<noteq> None"
    by (simp add: demo_cs_applied_def)
  have ok: "fst (clean demo_env demo_db [] demo_cs_applied demo_create) = Inr ()"
    "fst (clean demo_env demo_db [] demo_cs_applied demo_delete) = Inr ()"
    "fst (clean demo_env demo_db [] demo_cs_applied (demo_field_change ''update'')) = Inr ()"
    "fst (clean demo_env demo_db [] demo_cs_applied (demo_field_change ''m2m_add'')) = Inr ()"
    "fst (clean demo_env demo_db [] demo_cs_applied (demo_field_change ''m2m_remove'')) = Inr ()"
    "fst (clean demo_env demo_db [] demo_cs_applied demo_new_delchange) = Inr ()"
    by (simp_all add: clean_def resolve_target_def obj_def wrap_def delchange_fields_def
        create_delete_fields_def parse_defs demo_env_def demo_cs_def new_changeset_def Area_def POI_def demo_db_def demo_new_def new_instance_def demo_cs_applied_def demo_create_def demo_delete_def demo_field_change_def demo_new_delchange_def demo_delchange_def demo_update_missing_def)
  have bad: "fst (clean demo_env demo_db [] demo_cs_applied
        (demo_new\<lparr>action := ''update'', model_name := None\<rparr>))
      = Inl (ValidationError ''model_name has to be set if action is not delchange.'')"
    by (simp add: clean_def demo_new_def new_instance_def)
  have new: "pk demo_create = None" "pk demo_delete = None" "pk (demo_field_change act) = None"
    "pk demo_new_delchange = None" for act
    by (simp_all add: demo_env_def demo_cs_def new_changeset_def Area_def POI_def demo_db_def demo_new_def new_instance_def demo_cs_applied_def demo_create_def demo_delete_def demo_field_change_def demo_new_delchange_def demo_delchange_def demo_update_missing_def)
  from save_on_closed_changeset [OF closed, of demo_env demo_db "[]" demo_create]
    save_on_closed_changeset [OF closed, of demo_env demo_db "[]" demo_delete]
    save_on_closed_changeset [OF closed, of demo_env demo_db "[]" "demo_field_change ''update''"]
    save_on_closed_changeset [OF closed, of demo_env demo_db "[]" "demo_field_change ''m2m_add''"]
    save_on_closed_changeset [OF closed, of demo_env demo_db "[]" "demo_field_change ''m2m_remove''"]
    save_on_closed_changeset [OF closed, of demo_env demo_db "[]" demo_new_delchange]
    save_on_closed_changeset [OF closed, of demo_env demo_db "[]"
      "demo_new\<lparr>action := ''update'', model_name := None\<rparr>"]
    ok new bad
  show ?thesis by simp
qed

text \<open>C4 as stated fails: the new update of Area 43, which the store does not hold, saved
  into the applied change set, ends in the ValidationError of \<open>clean\<close>, not in the
  TypeError of the closed change set.\<close>

theorem save_on_closed_changeset_counterexample:
  "fst (save demo_env demo_db [] demo_cs_applied demo_update_missing)
     = Inl (ValidationError ''existing object does not exist.'') \<and>
   cs_applied demo_cs_applied = Some 16"
  by (simp add: save_def clean_def resolve_target_def obj_def parse_defs demo_env_def demo_cs_def new_changeset_def Area_def POI_def demo_db_def demo_new_def new_instance_def demo_cs_applied_def demo_create_def demo_delete_def demo_field_change_def demo_new_delchange_def demo_delchange_def demo_update_missing_def)

subsection \<open>The active change set of a request\<close>

lemma latest_None: "latest xs = None \<longleftrightarrow> xs = []"
  by (induction xs) (auto split: option.splits)

lemma latest_max:
  "latest xs = Some r \<Longrightarrow> r \<in> set xs \<and> (\<forall>r' \<in> set xs. row_created r' \<le> row_created r)"
proof (induction xs arbitrary: r)
  case Nil
  then show ?case by simp
next
  case (Cons x xs)
  show ?case
  proof (cases "latest xs")
    case None
    with Cons.prems latest_None [of xs] show ?thesis by simp
  next
    case (Some b)
    from Cons.IH [OF Some] have b: "b \<in> set xs" "\<forall>r' \<in> set xs. row_created r' \<le> row_created b"
      by simp_all
    show ?thesis
    proof (cases "row_created x < row_created b")
      case True
      with Some Cons.prems have "r = b" by simp
      with b True show ?thesis by auto
    next
      case False
      with Some Cons.prems have "r = x" by simp
      with b False show ?thesis by fastforce
    qed
  qed
qed

lemma qs_for_request_set:
  "set (qs_for_request D req) =
     {r \<in> set (changeset_rows D). row_applied r = None \<and>
        (row_author_id r = None \<or> (\<exists>u. req_user req = User u \<and> row_author_id r = Some u))}"
  by (cases "req_user req") (auto simp: qs_for_request_def qs_base_def Let_def)

lemma session_changeset_unapplied:
  "session_changeset D req = Some r \<Longrightarrow> row_applied r = None"
proof -
  assume a: "session_changeset D req = Some r"
  then obtain k where "find (\<lambda>r. row_pk r = k) (qs_for_request D req) = Some r"
    by (auto simp: session_changeset_def split: option.splits)
  then have "r \<in> set (qs_for_request D req)" by (auto simp: find_Some_iff)
  then show ?thesis by (simp add: qs_for_request_set)
qed

lemma resume_or_create_unapplied:
  "cs_applied (fst (resume_or_create D req (qs_for_request D req) :: 'j changeset \<times> db \<times> request)) = None"
proof (cases "req_user req")
  case AnonymousUser
  then show ?thesis
    by (simp add: resume_or_create_def insert_changeset_def new_changeset_def Let_def)
next
  case (User u)
  show ?thesis
  proof (cases "latest (filter (\<lambda>r. row_author_id r = Some u) (qs_for_request D req))")
    case None
    with User show ?thesis
      by (simp add: resume_or_create_def insert_changeset_def new_changeset_def Let_def)
  next
    case (Some r)
    from latest_max [OF Some] have "r \<in> set (qs_for_request D req)" by simp
    then have "row_applied r = None" by (simp add: qs_for_request_set)
    with User Some show ?thesis by (simp add: resume_or_create_def of_row_def)
  qed
qed

lemma get_for_request_unapplied:
  "cs_applied (fst (get_for_request D req :: 'j changeset \<times> db \<times> request)) = None"
proof (cases "session_changeset D req")
  case None
  with resume_or_create_unapplied [of D req, where ?'j = 'j] show ?thesis
    by (simp add: get_for_request_def)
next
  case (Some r)
  with session_changeset_unapplied [OF Some] show ?thesis
    by (simp add: get_for_request_def of_row_def Let_def split: user.splits)
qed

lemma resume_most_recent:
  assumes u: "req_user req = User u" and s: "session_changeset D req = None"
    and r0: "r0 \<in> set (changeset_rows D)" "row_author_id r0 = Some u" "row_applied r0 = None"
  shows "\<exists>r \<in> set (changeset_rows D).
           row_author_id r = Some u \<and> row_applied r = None \<and>
           (\<forall>r' \<in> set (changeset_rows D).
              row_author_id r' = Some u \<and> row_applied r' = None \<longrightarrow> row_created r' \<le> row_created r) \<and>
           (get_for_request D req :: 'j changeset \<times> db \<times> request)
             = ((of_row r)\<lparr>default_author := Some (User u)\<rparr>, D,
                req\<lparr>session_changeset_pk := Some (row_pk r)\<rparr>)"
proof -
  let ?mine = "filter (\<lambda>r. row_author_id r = Some u) (qs_for_request D req)"
  have mine: "set ?mine = {r \<in> set (changeset_rows D). row_author_id r = Some u \<and> row_applied r = None}"
    using u by (auto simp: qs_for_request_set)
  with r0 have "r0 \<in> set ?mine" by simp
  then have "?mine \<noteq> []" by (cases ?mine) simp_all
  with latest_None [of ?mine] obtain r where r: "latest ?mine = Some r" by (cases "latest ?mine") simp_all
  from latest_max [OF r] mine have
    "r \<in> set (changeset_rows D)" "row_author_id r = Some u" "row_applied r = None"
    "\<forall>r' \<in> set (changeset_rows D).
       row_author_id r' = Some u \<and> row_applied r' = None \<longrightarrow> row_created r' \<le> row_created r"
    by auto
  moreover from u s r have "(get_for_request D req :: 'j changeset \<times> db \<times> request)
      = ((of_row r)\<lparr>default_author := Some (User u)\<rparr>, D, req\<lparr>session_changeset_pk := Some (row_pk r)\<rparr>)"
    by (simp add: get_for_request_def resume_or_create_def Let_def)
  ultimately show ?thesis by blast
qed

text \<open>C7, as the code has it. \<open>get_for_request\<close> never returns a change set whose applied
  timestamp is set. For an authenticated user whose session names no change set of the
  query, and who is the author of a change set that is not applied, it returns the most
  recently created change set of that author that is not applied (proposed or not),
  leaves the store as it is and notes the change set in the session.\<close>

theorem get_for_request_resumes_unapplied:
  "cs_applied (fst (get_for_request D req :: 'j changeset \<times> db \<times> request)) = None \<and>
   (req_user req = User u \<and> session_changeset D req = None \<and>
    r0 \<in> set (changeset_rows D) \<and> row_author_id r0 = Some u \<and> row_applied r0 = None
    \<longrightarrow> (\<exists>r \<in> set (changeset_rows D).
           row_author_id r = Some u \<and> row_applied r = None \<and>
           (\<forall>r' \<in> set (changeset_rows D).
              row_author_id r' = Some u \<and> row_applied r' = None \<longrightarrow> row_created r' \<le> row_created r) \<and>
           (get_for_request D req :: 'j changeset \<times> db \<times> request)
             = ((of_row r)\<lparr>default_author := Some (User u)\<rparr>, D,
                req\<lparr>session_changeset_pk := Some (row_pk r)\<rparr>)))"
proof (intro conjI impI)
  show "cs_applied (fst (get_for_request D req :: 'j changeset \<times> db \<times> request)) = None"
    by (rule get_for_request_unapplied)
next
  assume "req_user req = User u \<and> session_changeset D req = None \<and>
    r0 \<in> set (changeset_rows D) \<and> row_author_id r0 = Some u \<and> row_applied r0 = None"
  then have "req_user req = User u" "session_changeset D req = None"
    "r0 \<in> set (changeset_rows D)" "row_author_id r0 = Some u" "row_applied r0 = None"
    by simp_all
  then show "\<exists>r \<in> set (changeset_rows D).
           row_author_id r = Some u \<and> row_applied r = None \<and>
           (\<forall>r' \<in> set (changeset_rows D).
              row_author_id r' = Some u \<and> row_applied r' = None \<longrightarrow> row_created r' \<le> row_created r) \<and>
           (get_for_request D req :: 'j changeset \<times> db \<times> request)
             = ((of_row r)\<lparr>default_author := Some (User u)\<rparr>, D,
                req\<lparr>session_changeset_pk := Some (row_pk r)\<rparr>)"
    by (rule resume_most_recent)
qed

theorem get_for_request_resumes_unapplied_witness:
  "cs_applied (fst (get_for_request demo_db_proposed demo_req :: string changeset \<times> db \<times> request)) = None \<and>
   cs_pk (fst (get_for_request demo_db_proposed demo_req :: string changeset \<times> db \<times> request)) = Some 1 \<and>
   session_changeset_pk (snd (snd (get_for_request demo_db_proposed demo_req :: string changeset \<times> db \<times> request)))
     = Some 1"
proof -
  let ?r1 = "\<lparr>row_pk = 1, row_created = 10, row_author_id = Some 1, row_proposed = Some 15,
         row_applied = None, row_applied_by_id = None\<rparr>"
  let ?r2 = "\<lparr>row_pk = 2, row_created = 5, row_author_id = Some 1, row_proposed = None,
         row_applied = None, row_applied_by_id = None\<rparr>"
  let ?g = "get_for_request demo_db_proposed demo_req :: string changeset \<times> db \<times> request"
  have rows: "changeset_rows demo_db_proposed = [?r1, ?r2]"
    by (simp add: demo_db_proposed_def demo_db_def)
  have h: "req_user demo_req = User 1 \<and> session_changeset demo_db_proposed demo_req = None \<and>
    ?r1 \<in> set (changeset_rows demo_db_proposed) \<and> row_author_id ?r1 = Some 1 \<and> row_applied ?r1 = None"
    by (simp add: session_changeset_def rows demo_req_def)
  note t = get_for_request_resumes_unapplied [of demo_db_proposed demo_req 1 ?r1, where ?'j = string]
  from t have ap: "cs_applied (fst ?g) = None" by (rule conjunct1)
  from t h have "\<exists>r \<in> set (changeset_rows demo_db_proposed).
           row_author_id r = Some 1 \<and> row_applied r = None \<and>
           (\<forall>r' \<in> set (changeset_rows demo_db_proposed).
              row_author_id r' = Some 1 \<and> row_applied r' = None \<longrightarrow> row_created r' \<le> row_created r) \<and>
           ?g = ((of_row r)\<lparr>default_author := Some (User 1)\<rparr>, demo_db_proposed,
                demo_req\<lparr>session_changeset_pk := Some (row_pk r)\<rparr>)"
    by (rule conjunct2 [THEN mp])
  then obtain r where r: "r \<in> set (changeset_rows demo_db_proposed)"
    and mx: "\<forall>r' \<in> set (changeset_rows demo_db_proposed).
              row_author_id r' = Some 1 \<and> row_applied r' = None \<longrightarrow> row_created r' \<le> row_created r"
    and g: "?g = ((of_row r)\<lparr>default_author := Some (User 1)\<rparr>, demo_db_proposed,
                demo_req\<lparr>session_changeset_pk := Some (row_pk r)\<rparr>)"
    by blast
  from r have "r = ?r1 \<or> r = ?r2" by (simp add: rows)
  moreover from mx have "row_created ?r1 \<le> row_created r" by (simp add: rows)
  ultimately have "r = ?r1" by auto
  with g ap show ?thesis by (simp add: of_row_def)
qed

text \<open>C7 as stated fails: user 1 has change set 1, proposed at time 15 and not applied,
  and the older change set 2, open and not proposed; the request of user 1 resumes
  change set 1.\<close>

theorem get_for_request_resumes_proposed_counterexample:
  "cs_pk (fst (get_for_request demo_db_proposed demo_req :: string changeset \<times> db \<times> request)) = Some 1 \<and>
   cs_proposed (fst (get_for_request demo_db_proposed demo_req :: string changeset \<times> db \<times> request)) = Some 15"
  by (simp add: get_for_request_def session_changeset_def resume_or_create_def qs_for_request_def
      qs_base_def of_row_def demo_db_proposed_def demo_db_def demo_req_def)

subsection \<open>The target of a Change\<close>

lemma set_obj_success:
  assumes "set_obj E D log cs val self = (Inr (), self', cs')"
  shows "\<exists>w. set_object self' = Some w \<and>
           (case w_pk w of
              Some (IntPk n) \<Rightarrow> existing_object_pk self' = Some n \<and> created_object self' = None
            | Some (StrPk s) \<Rightarrow> existing_object_pk self' = None \<and> created_object self' \<noteq> None
            | None \<Rightarrow> False)"
proof -
  obtain rw w0 cs0 where
    "(case val of Wrapped w \<Rightarrow> (Inr w, cs) | Instance i \<Rightarrow> wrap E log cs i) = (rw, cs0)"
    by (cases "case val of Wrapped w \<Rightarrow> (Inr w, cs) | Instance i \<Rightarrow> wrap E log cs i") auto
  with assms show ?thesis
    by (auto simp: set_obj_def split: sum.splits option.splits pkv.splits prod.splits if_splits)
qed

text \<open>C10, as the code has it. After an assignment to \<open>obj\<close> that raised nothing, the
  wrapper is cached and exactly one of \<open>existing_object_pk\<close> and \<open>created_object\<close> is set:
  a wrapper with an integer identity sets the first and clears the second, one with a
  string identity clears the first and sets the second. Reading \<open>obj\<close> of a Change with
  both set and no cached target object raises TypeError.\<close>

theorem obj_setter_exclusive:
  "(set_obj E D log cs val self = (Inr (), self', cs') \<longrightarrow>
      (existing_object_pk self' = None) \<noteq> (created_object self' = None) \<and>
      (\<exists>w. set_object self' = Some w \<and>
         (case w_pk w of
            Some (IntPk n) \<Rightarrow> existing_object_pk self' = Some n \<and> created_object self' = None
          | Some (StrPk s) \<Rightarrow> existing_object_pk self' = None \<and> created_object self' \<noteq> None
          | None \<Rightarrow> False))) \<and>
   (existing_object_pk c \<noteq> None \<and> created_object c \<noteq> None \<and> set_object c = None \<longrightarrow>
      fst (obj E D log cs c)
        = Inl (TypeError ''existing_object_pk and created_object can not both be set.''))"
proof (intro conjI impI)
  assume a: "set_obj E D log cs val self = (Inr (), self', cs')"
  from set_obj_success [OF a] obtain w where w: "set_object self' = Some w"
    "case w_pk w of
       Some (IntPk n) \<Rightarrow> existing_object_pk self' = Some n \<and> created_object self' = None
     | Some (StrPk s) \<Rightarrow> existing_object_pk self' = None \<and> created_object self' \<noteq> None
     | None \<Rightarrow> False"
    by blast
  from w(2) show "(existing_object_pk self' = None) \<noteq> (created_object self' = None)"
    by (auto split: option.splits pkv.splits)
  from w show "\<exists>w. set_object self' = Some w \<and>
         (case w_pk w of
            Some (IntPk n) \<Rightarrow> existing_object_pk self' = Some n \<and> created_object self' = None
          | Some (StrPk s) \<Rightarrow> existing_object_pk self' = None \<and> created_object self' \<noteq> None
          | None \<Rightarrow> False)"
    by blast
next
  assume "existing_object_pk c \<noteq> None \<and> created_object c \<noteq> None \<and> set_object c = None"
  then show "fst (obj E D log cs c)
        = Inl (TypeError ''existing_object_pk and created_object can not both be set.'')"
    by (auto simp: obj_def)
qed

theorem obj_setter_exclusive_witness:
  "existing_object_pk (fst (snd (set_obj demo_env demo_db [] demo_cs (Wrapped demo_wrapper_area) demo_new)))
     = Some 42 \<and>
   created_object (fst (snd (set_obj demo_env demo_db [] demo_cs (Wrapped demo_wrapper_area) demo_new)))
     = None \<and>
   existing_object_pk (fst (snd (set_obj demo_env demo_db_created [] demo_cs
       (Wrapped (demo_wrapper_poi\<lparr>w_pk := Some (StrPk ''c7'')\<rparr>)) demo_new))) = None \<and>
   created_object (fst (snd (set_obj demo_env demo_db_created [] demo_cs
       (Wrapped (demo_wrapper_poi\<lparr>w_pk := Some (StrPk ''c7'')\<rparr>)) demo_new))) \<noteq> None \<and>
   fst (obj demo_env demo_db [] demo_cs demo_both)
     = Inl (TypeError ''existing_object_pk and created_object can not both be set.'')"
proof -
  let ?s1 = "set_obj demo_env demo_db [] demo_cs (Wrapped demo_wrapper_area) demo_new"
  let ?s2 = "set_obj demo_env demo_db_created [] demo_cs
       (Wrapped (demo_wrapper_poi\<lparr>w_pk := Some (StrPk ''c7'')\<rparr>)) demo_new"
  have f1: "fst ?s1 = Inr ()" and w1: "set_object (fst (snd ?s1)) = Some demo_wrapper_area"
    by (simp_all add: set_obj_def set_model_class_def parse_defs demo_env_def demo_cs_def new_changeset_def Area_def POI_def demo_db_def demo_db_created_def demo_new_def new_instance_def demo_wrapper_area_def demo_wrapper_poi_def demo_ref7_def demo_both_cached_def demo_both_def)
  have f2: "fst ?s2 = Inr ()"
    and w2: "set_object (fst (snd ?s2)) = Some (demo_wrapper_poi\<lparr>w_pk := Some (StrPk ''c7'')\<rparr>)"
    by (simp_all add: set_obj_def set_model_class_def change_objects_get_def demo_int_def
        parse_defs demo_env_def demo_cs_def new_changeset_def Area_def POI_def demo_db_def demo_db_created_def demo_new_def new_instance_def demo_wrapper_area_def demo_wrapper_poi_def demo_ref7_def demo_both_cached_def demo_both_def)
  from f1 have e1: "?s1 = (Inr (), fst (snd ?s1), snd (snd ?s1))" by (metis prod.collapse)
  from f2 have e2: "?s2 = (Inr (), fst (snd ?s2), snd (snd ?s2))" by (metis prod.collapse)
  have b: "existing_object_pk demo_both \<noteq> None \<and> created_object demo_both \<noteq> None
      \<and> set_object demo_both = None"
    by (simp add: demo_env_def demo_cs_def new_changeset_def Area_def POI_def demo_db_def demo_db_created_def demo_new_def new_instance_def demo_wrapper_area_def demo_wrapper_poi_def demo_ref7_def demo_both_cached_def demo_both_def)
  note t1 = obj_setter_exclusive [of demo_env demo_db "[]" demo_cs "Wrapped demo_wrapper_area" demo_new
      "fst (snd ?s1)" "snd (snd ?s1)" demo_both]
  note t2 = obj_setter_exclusive [of demo_env demo_db_created "[]" demo_cs
      "Wrapped (demo_wrapper_poi\<lparr>w_pk := Some (StrPk ''c7'')\<rparr>)" demo_new
      "fst (snd ?s2)" "snd (snd ?s2)" demo_both]
  from t1 e1 w1 have r1: "existing_object_pk (fst (snd ?s1)) = Some 42 \<and> created_object (fst (snd ?s1)) = None"
    by (auto simp: demo_wrapper_area_def)
  from t2 e2 w2 have r2: "existing_object_pk (fst (snd ?s2)) = None \<and> created_object (fst (snd ?s2)) \<noteq> None"
    by (auto simp: demo_wrapper_poi_def)
  from t1 b have r3: "fst (obj demo_env demo_db [] demo_cs demo_both)
     = Inl (TypeError ''existing_object_pk and created_object can not both be set.'')"
    by blast
  from r1 r2 r3 show ?thesis by blast
qed

text \<open>C10 as stated fails in its last part. Assign the wrapper of Area 42 to \<open>obj\<close> of a
  new update, then set \<open>created_object\<close>: both references are set, and reading \<open>obj\<close>
  returns the cached wrapper and raises nothing.\<close>

theorem obj_both_set_counterexample:
  "(fst (snd (set_obj demo_env demo_db [] demo_cs (Wrapped demo_wrapper_area)
       (demo_new\<lparr>action := ''update''\<rparr>))))\<lparr>created_object := Some demo_ref7\<rparr> = demo_both_cached \<and>
   existing_object_pk demo_both_cached = Some 42 \<and>
   created_object demo_both_cached = Some demo_ref7 \<and>
   fst (obj demo_env demo_db [] demo_cs demo_both_cached) = Inr demo_wrapper_area"
  by (simp add: set_obj_def set_model_class_def obj_def parse_defs demo_env_def demo_cs_def new_changeset_def Area_def POI_def demo_db_def demo_db_created_def demo_new_def new_instance_def demo_wrapper_area_def demo_wrapper_poi_def demo_ref7_def demo_both_cached_def demo_both_def)

subsection \<open>The identity of a pending creation\<close>

text \<open>C2 on the code. In change set 1, \<open>add_create\<close> stores Change 7 and gives the new POI
  the identity \<open>c7\<close>. \<open>add_update\<close> on that POI stores Change 8, whose \<open>obj_pk\<close> is
  \<open>c7\<close> as long as the wrapper is cached. Read back from the table, Change 8 has
  \<open>obj_pk\<close> \<open>c1\<close>, the letter followed by the identity of the change set, and the
  projection of the stored log files the title under \<open>c1\<close>, not under \<open>c7\<close>.\<close>

theorem pending_identity_not_round_tripped:
  "(case add_create demo_env demo_db [] demo_cs demo_wrapper_poi (Some (User 1)) of
      (r, w, cs', D') \<Rightarrow>
        r = Inr () \<and> w = demo_wrapper_poi\<lparr>w_pk := Some (StrPk ''c7'')\<rparr> \<and> D' = demo_db_created) \<and>
   (case add_update demo_env demo_db_created (change_rows demo_db_created) demo_cs
           (Wrapped (demo_wrapper_poi\<lparr>w_pk := Some (StrPk ''c7'')\<rparr>)) ''title'' ''Lobby''
           (Some (User 1)) of
      (r, cs', D') \<Rightarrow>
        map_sum id obj_pk r = Inr (Inr (Some (StrPk ''c7''))) \<and>
        change_rows D' = change_rows demo_db_created @ [demo_update_created]) \<and>
   obj_pk demo_update_created = Inr (Some (StrPk ''c1'')) \<and>
   lookup_value (snd (parse_changes demo_env (change_rows demo_db_created @ [demo_update_created]) demo_cs))
     (Some POI) (Some (StrPk ''c7'')) (Some ''title'') = None \<and>
   lookup_value (snd (parse_changes demo_env (change_rows demo_db_created @ [demo_update_created]) demo_cs))
     (Some POI) (Some (StrPk ''c1'')) (Some ''title'') = Some ''Lobby''"
proof -
  have s7: "str_int 7 = ''7''" and s1: "py_str (Some 1) = ''1''"
    by (simp_all add: py_str_def str_int_def str_nat.simps digit_char_def)
  have a: "add_create demo_env demo_db [] demo_cs demo_wrapper_poi (Some (User 1))
      = (Inr (), demo_wrapper_poi\<lparr>w_pk := Some (StrPk ''c7'')\<rparr>, demo_cs, demo_db_created)"
    by (simp add: add_create_def new_change_def save_def clean_def resolve_target_def
        insert_change_def set_model_class_def create_delete_fields_def s7 parse_defs demo_env_def demo_cs_def new_changeset_def Area_def POI_def demo_db_def demo_db_created_def new_instance_def demo_wrapper_poi_def demo_ref7_def demo_update_created_def)
  have b: "obj_pk demo_update_created = Inr (Some (StrPk ''c1''))"
    by (simp add: obj_pk_def s1 demo_env_def demo_cs_def new_changeset_def Area_def POI_def demo_db_def demo_db_created_def new_instance_def demo_wrapper_poi_def demo_ref7_def demo_update_created_def)
  have u: "add_update demo_env demo_db_created (change_rows demo_db_created) demo_cs
           (Wrapped (demo_wrapper_poi\<lparr>w_pk := Some (StrPk ''c7'')\<rparr>)) ''title'' ''Lobby''
           (Some (User 1))
      = (Inr (demo_update_created\<lparr>set_object := Some (demo_wrapper_poi\<lparr>w_pk := Some (StrPk ''c7'')\<rparr>)\<rparr>),
         demo_cs\<lparr>updated_values := upd3 Map.empty (Some POI) (Some (StrPk ''c7'')) (Some ''title'') ''Lobby''\<rparr>,
         demo_db_created\<lparr>change_rows := change_rows demo_db_created @ [demo_update_created],
                          next_change_pk := 9\<rparr>)"
    by (simp add: add_update_def add_value_def new_change_def save_def clean_def resolve_target_def
        obj_def insert_change_def set_obj_def set_model_class_def change_objects_get_def ref_of_def
        demo_int_def upd3_def parse_defs demo_env_def demo_cs_def new_changeset_def Area_def POI_def demo_db_def demo_db_created_def new_instance_def demo_wrapper_poi_def demo_ref7_def demo_update_created_def)
  have p: "parse_changes demo_env (change_rows demo_db_created @ [demo_update_created]) demo_cs
      = (Inr (), demo_cs\<lparr>updated_values := upd3 Map.empty (Some POI) (Some (StrPk ''c1'')) (Some ''title'') ''Lobby''\<rparr>)"
    by (simp add: s1 upd3_def parse_defs demo_env_def demo_cs_def new_changeset_def Area_def POI_def demo_db_def demo_db_created_def new_instance_def demo_wrapper_poi_def demo_ref7_def demo_update_created_def)
  show ?thesis
    unfolding a u p b
    by (simp add: obj_pk_def lookup_value_def upd3_def setdefault_def demo_env_def demo_cs_def new_changeset_def Area_def POI_def demo_db_def demo_db_created_def new_instance_def demo_wrapper_poi_def demo_ref7_def demo_update_created_def)
qed

subsection \<open>Two pending creations in one change set\<close>

text \<open>C8 on the code. In change set 1, \<open>add_create\<close> twice gives two POIs the identities
  \<open>c7\<close> and \<open>c8\<close>; \<open>add_update\<close> sets \<open>level\<close> of the first to 1 and then to 2, and
  \<open>level\<close> of the second to 3; every call is on a new handle and on the log that the
  table holds. Read back from the table, all three updates have \<open>obj_pk\<close> \<open>c1\<close>, the
  letter followed by the identity of the change set. The projection of the stored log has
  one entry for \<open>level\<close>, under \<open>c1\<close>, with the value 3 of the other object; the value 2,
  the later of the two updates of the first object, is nowhere in it.\<close>

theorem last_update_lost_for_pending_creations:
  "add_create demo_env (demo_db_after 0) (change_rows (demo_db_after 0)) demo_cs
       demo_wrapper_poi (Some (User 1))
     = (Inr (), demo_pending_wrapper ''c7'', demo_cs, demo_db_after 1) \<and>
   add_create demo_env (demo_db_after 1) (change_rows (demo_db_after 1)) demo_cs
       demo_wrapper_poi (Some (User 1))
     = (Inr (), demo_pending_wrapper ''c8'', demo_cs, demo_db_after 2) \<and>
   snd (snd (add_update demo_env (demo_db_after 2) (change_rows (demo_db_after 2)) demo_cs
       (Wrapped (demo_pending_wrapper ''c7'')) ''level'' ''1'' (Some (User 1)))) = demo_db_after 3 \<and>
   snd (snd (add_update demo_env (demo_db_after 3) (change_rows (demo_db_after 3)) demo_cs
       (Wrapped (demo_pending_wrapper ''c7'')) ''level'' ''2'' (Some (User 1)))) = demo_db_after 4 \<and>
   snd (snd (add_update demo_env (demo_db_after 4) (change_rows (demo_db_after 4)) demo_cs
       (Wrapped (demo_pending_wrapper ''c8'')) ''level'' ''3'' (Some (User 1)))) = demo_db_after 5 \<and>
   change_rows (demo_db_after 5) = demo_log_pending \<and>
   map obj_pk (drop 2 demo_log_pending)
     = [Inr (Some (StrPk ''c1'')), Inr (Some (StrPk ''c1'')), Inr (Some (StrPk ''c1''))] \<and>
   fst (parse_changes demo_env demo_log_pending demo_cs) = Inr () \<and>
   lookup_value (snd (parse_changes demo_env demo_log_pending demo_cs))
     (Some POI) (Some (StrPk ''c1'')) (Some ''level'') = Some ''3'' \<and>
   lookup_value (snd (parse_changes demo_env demo_log_pending demo_cs))
     (Some POI) (Some (StrPk ''c7'')) (Some ''level'') = None \<and>
   lookup_value (snd (parse_changes demo_env demo_log_pending demo_cs))
     (Some POI) (Some (StrPk ''c8'')) (Some ''level'') = None"
proof -
  note demo = demo_env_def demo_cs_def new_changeset_def Area_def POI_def demo_db_def
    new_instance_def demo_wrapper_poi_def demo_created_def demo_ref_def demo_level_def
    demo_log_pending_def demo_db_after_def demo_pending_wrapper_def
  have s: "str_int 7 = ''7''" "str_int 8 = ''8''" "py_str (Some 1) = ''1''"
    by (simp_all add: py_str_def str_int_def str_nat.simps digit_char_def)
  have a1: "add_create demo_env (demo_db_after 0) (change_rows (demo_db_after 0)) demo_cs
       demo_wrapper_poi (Some (User 1))
     = (Inr (), demo_pending_wrapper ''c7'', demo_cs, demo_db_after 1)"
    by (simp add: add_create_def new_change_def save_def clean_def resolve_target_def
        insert_change_def set_model_class_def create_delete_fields_def s parse_defs demo)
  have a2: "add_create demo_env (demo_db_after 1) (change_rows (demo_db_after 1)) demo_cs
       demo_wrapper_poi (Some (User 1))
     = (Inr (), demo_pending_wrapper ''c8'', demo_cs, demo_db_after 2)"
    by (simp add: add_create_def new_change_def save_def clean_def resolve_target_def
        insert_change_def set_model_class_def create_delete_fields_def s parse_defs demo)
  have u1: "snd (snd (add_update demo_env (demo_db_after 2) (change_rows (demo_db_after 2)) demo_cs
       (Wrapped (demo_pending_wrapper ''c7'')) ''level'' ''1'' (Some (User 1)))) = demo_db_after 3"
    by (simp add: add_update_def add_value_def new_change_def save_def clean_def resolve_target_def
        obj_def insert_change_def set_obj_def set_model_class_def change_objects_get_def ref_of_def
        demo_int_def s parse_defs demo)
  have u2: "snd (snd (add_update demo_env (demo_db_after 3) (change_rows (demo_db_after 3)) demo_cs
       (Wrapped (demo_pending_wrapper ''c7'')) ''level'' ''2'' (Some (User 1)))) = demo_db_after 4"
    by (simp add: add_update_def add_value_def new_change_def save_def clean_def resolve_target_def
        obj_def insert_change_def set_obj_def set_model_class_def change_objects_get_def ref_of_def
        demo_int_def s parse_defs demo)
  have u3: "snd (snd (add_update demo_env (demo_db_after 4) (change_rows (demo_db_after 4)) demo_cs
       (Wrapped (demo_pending_wrapper ''c8'')) ''level'' ''3'' (Some (User 1)))) = demo_db_after 5"
    by (simp add: add_update_def add_value_def new_change_def save_def clean_def resolve_target_def
        obj_def insert_change_def set_obj_def set_model_class_def change_objects_get_def ref_of_def
        demo_int_def s parse_defs demo)
  have r: "change_rows (demo_db_after 5) = demo_log_pending"
    by (simp add: demo_db_after_def demo_log_pending_def)
  have k: "map obj_pk (drop 2 demo_log_pending)
     = [Inr (Some (StrPk ''c1'')), Inr (Some (StrPk ''c1'')), Inr (Some (StrPk ''c1''))]"
    by (simp add: obj_pk_def s demo)
  have p: "fst (parse_changes demo_env demo_log_pending demo_cs) = Inr ()"
    "lookup_value (snd (parse_changes demo_env demo_log_pending demo_cs))
       (Some POI) (Some (StrPk ''c1'')) (Some ''level'') = Some ''3''"
    "lookup_value (snd (parse_changes demo_env demo_log_pending demo_cs))
       (Some POI) (Some (StrPk ''c7'')) (Some ''level'') = None"
    "lookup_value (snd (parse_changes demo_env demo_log_pending demo_cs))
       (Some POI) (Some (StrPk ''c8'')) (Some ''level'') = None"
    by (simp_all add: lookup_value_def s parse_defs demo)
  from a1 a2 u1 u2 u3 r k p show ?thesis by blast
qed

end
